theory Spec2Isabelle
  imports Complex_Main "HOL-Library.Sublist" "HOL-Library.Monad_Syntax"
    "HOL-Library.Log_Nat"
begin

section \<open>Python strings and numbers\<close>

text \<open>
  A Python \<open>str\<close> is modelled as a \<open>string\<close> whose characters are the code points
  below 256 (ASCII and Latin-1); \<open>length\<close> counts code points. On these code points
  \<open>str.lower\<close> maps one character to one character, \<open>str.isspace\<close> and the regular
  expression class \<open>\s\<close> accept the same twelve characters, and \<open>\d\<close> accepts exactly
  the ten ASCII digits. A Python \<open>float\<close> is modelled as a \<open>real\<close> where it is only
  compared or rounded once for display; in the traffic estimator, whose claims depend
  on how its arithmetic rounds, every operation rounds to the nearest double.
\<close>

definition lower_char :: "char \<Rightarrow> char" where
  "lower_char c =
     (let n = (of_char c :: nat)
      in if (65 \<le> n \<and> n \<le> 90) \<or> (192 \<le> n \<and> n \<le> 222 \<and> n \<noteq> 215)
         then char_of (n + 32) else c)"

definition lower :: "string \<Rightarrow> string" where
  "lower s = map lower_char s"

definition isspace :: "char \<Rightarrow> bool" where
  "isspace c = ((of_char c :: nat) \<in> {9, 10, 11, 12, 13, 28, 29, 30, 31, 32, 133, 160})"

definition isdigit :: "char \<Rightarrow> bool" where
  "isdigit c = (48 \<le> (of_char c :: nat) \<and> (of_char c :: nat) \<le> 57)"

text \<open>
  The operations that only compare characters are written for lists over any alphabet:
  they are used on 8-bit strings everywhere except in \<open>extract_sentiment\<close>, which is
  stated for every alphabet.
\<close>

definition startswith :: "'a list \<Rightarrow> 'a list \<Rightarrow> bool" where
  "startswith s p = (take (length p) s = p)"

text \<open>\<open>s.find(sub)\<close>: the least index at which \<open>sub\<close> starts in \<open>s\<close>, or \<open>-1\<close>.\<close>

fun str_find :: "'a list \<Rightarrow> 'a list \<Rightarrow> int" where
  "str_find [] sub = (if sub = [] then 0 else -1)"
| "str_find (c # cs) sub =
     (if startswith (c # cs) sub then 0
      else (let r = str_find cs sub in if r = -1 then -1 else r + 1))"

text \<open>\<open>sub in s\<close> on strings.\<close>

definition contains :: "'a list \<Rightarrow> 'a list \<Rightarrow> bool" where
  "contains s sub = (str_find s sub \<noteq> -1)"

text \<open>\<open>s[a:b]\<close> for indices that are not negative.\<close>

definition slice :: "'a list \<Rightarrow> int \<Rightarrow> int \<Rightarrow> 'a list" where
  "slice s a b = drop (nat a) (take (nat b) s)"

text \<open>\<open>s.strip()\<close> and \<open>s.rstrip('/')\<close>.\<close>

definition strip :: "string \<Rightarrow> string" where
  "strip s = rev (dropWhile isspace (rev (dropWhile isspace s)))"

definition rstrip_slash :: "string \<Rightarrow> string" where
  "rstrip_slash s = rev (dropWhile (\<lambda>c. c = CHR ''/'') (rev s))"

text \<open>\<open>s.split('\n')\<close>: never empty, one more piece than there are newlines.\<close>

fun split_lines :: "string \<Rightarrow> string list" where
  "split_lines [] = [[]]"
| "split_lines (c # cs) =
     (if c = CHR 0x0A then [] # split_lines cs
      else (case split_lines cs of
              [] \<Rightarrow> [[c]]
            | l # ls \<Rightarrow> (c # l) # ls))"

text \<open>
  \<open>int(ds)\<close> for a string of ASCII digits: the number the digits read, and a
  \<open>ValueError\<close> when there are more digits than the interpreter converts (4300 by
  default, leading zeros counted).
\<close>

datatype py_error = ValueError

definition digit_val :: "char \<Rightarrow> nat" where
  "digit_val c = of_char c - 48"

definition int_of_digits :: "string \<Rightarrow> nat" where
  "int_of_digits ds = foldl (\<lambda>a c. 10 * a + digit_val c) 0 ds"

definition int_max_str_digits :: nat where
  "int_max_str_digits = 4300"

definition int_str :: "string \<Rightarrow> py_error + nat" where
  "int_str ds =
     (if int_max_str_digits < length ds then Inl ValueError else Inr (int_of_digits ds))"

section \<open>GEO module: domain cleaning, sentiment and rank\<close>

text \<open>\<open>re.sub(r'^https?://', '', s)\<close> and \<open>re.sub(r'^www\.', '', s)\<close>: the pattern
  is anchored at the start of the string, so at most one match is removed.\<close>

definition sub_scheme :: "string \<Rightarrow> string" where
  "sub_scheme s =
     (if startswith s ''http://'' then drop 7 s
      else if startswith s ''https://'' then drop 8 s
      else s)"

definition sub_www :: "string \<Rightarrow> string" where
  "sub_www s = (if startswith s ''www.'' then drop 4 s else s)"

definition clean_domain :: "string \<Rightarrow> string" where
  "clean_domain domain =
     (let d1 = strip (lower domain);
          d2 = sub_scheme d1;
          d3 = sub_www d2
      in rstrip_slash d3)"

definition positive_words :: "string list" where
  "positive_words =
     [''best'', ''excellent'', ''great'', ''amazing'', ''top'', ''leading'',
      ''recommended'', ''popular'', ''trusted'']"

definition negative_words :: "string list" where
  "negative_words =
     [''worst'', ''bad'', ''poor'', ''terrible'', ''avoid'', ''issues'',
      ''problems'', ''scam'', ''unreliable'']"

text \<open>
  \<open>extract_sentiment\<close> cuts the lower-cased text at positions computed from the lengths
  of the text and of the brand before lower-casing, so its result depends on whether
  lower-casing keeps the number of characters. On the code points below 256 it does;
  on others it need not (the lower-casing of U+0130 is two code points). The function
  is therefore written over any alphabet \<open>'a\<close>: \<open>low\<close> is \<open>str.lower\<close> on strings over
  that alphabet and \<open>lit\<close> writes an ASCII literal of the program in it. For 8-bit
  strings \<open>low\<close> is \<open>lower\<close> and \<open>lit\<close> changes nothing.
\<close>

text \<open>\<open>sum(1 for word in words if word in context)\<close>.\<close>

definition word_hits :: "(string \<Rightarrow> 'a list) \<Rightarrow> string list \<Rightarrow> 'a list \<Rightarrow> nat" where
  "word_hits lit ws ctx = length (filter (\<lambda>w. contains ctx (lit w)) ws)"

definition classify :: "nat \<Rightarrow> nat \<Rightarrow> string" where
  "classify pos_count neg_count =
     (if pos_count > neg_count then ''positive''
      else if neg_count > pos_count then ''negative''
      else ''neutral'')"

text \<open>The context window of \<open>extract_sentiment\<close> for a brand found at \<open>brand_pos\<close>.\<close>

definition sentiment_window ::
  "('a list \<Rightarrow> 'a list) \<Rightarrow> 'a list \<Rightarrow> 'a list \<Rightarrow> int \<Rightarrow> 'a list" where
  "sentiment_window low text brand brand_pos =
     (let start = max 0 (brand_pos - 100);
          end = min (int (length text)) (brand_pos + int (length brand) + 100)
      in slice (low text) start end)"

definition extract_sentiment ::
  "('a list \<Rightarrow> 'a list) \<Rightarrow> (string \<Rightarrow> 'a list) \<Rightarrow> 'a list \<Rightarrow> 'a list \<Rightarrow> string" where
  "extract_sentiment low lit text brand =
     (let text_lower = low text;
          brand_lower = low brand;
          brand_pos = str_find text_lower brand_lower
      in if brand_pos = -1 then ''neutral''
         else (let ctx = sentiment_window low text brand brand_pos;
                   pos_count = word_hits lit positive_words ctx;
                   neg_count = word_hits lit negative_words ctx
               in classify pos_count neg_count))"








text \<open>
  \<open>re.match(r'^\s*(\d+)\s*[.\-)]\s*', line)\<close> followed by \<open>int(match.group(1))\<close>:
  white space, a non-empty run of digits, white space, one separator. The character
  classes are disjoint, so the greedy match is the only one. The conversion raises on
  a run of more than 4300 digits, and nothing in \<open>extract_rank\<close> catches that.
\<close>

definition is_separator :: "char \<Rightarrow> bool" where
  "is_separator c = (c = CHR ''.'' \<or> c = CHR ''-'' \<or> c = CHR '')'')"

definition match_rank :: "string \<Rightarrow> py_error + nat option" where
  "match_rank line =
     (let r1 = dropWhile isspace line;
          ds = takeWhile isdigit r1;
          r2 = dropWhile isspace (dropWhile isdigit r1)
      in case r2 of
           [] \<Rightarrow> Inr None
         | c # _ \<Rightarrow>
             if ds \<noteq> [] \<and> is_separator c
             then (case int_str ds of Inl e \<Rightarrow> Inl e | Inr n \<Rightarrow> Inr (Some n))
             else Inr None)"

text \<open>The loop of \<open>extract_rank\<close> over \<open>enumerate(lines)\<close>, from index \<open>i\<close> on.\<close>

fun rank_lines :: "string list \<Rightarrow> string \<Rightarrow> nat \<Rightarrow> py_error + nat option" where
  "rank_lines [] brand i = Inr None"
| "rank_lines (line # ls) brand i =
     (if contains (lower line) (lower brand)
      then (case match_rank line of
              Inl e \<Rightarrow> Inl e
            | Inr (Some n) \<Rightarrow> Inr (Some n)
            | Inr None \<Rightarrow> Inr (Some (i + 1)))
      else rank_lines ls brand (i + 1))"

definition extract_rank :: "string \<Rightarrow> string \<Rightarrow> py_error + nat option" where
  "extract_rank text brand = rank_lines (split_lines text) brand 0"


section \<open>SEO health: Core Web Vitals categories\<close>

text \<open>The table \<open>thresholds\<close> of \<open>categorize_metric\<close>: for each metric the pair
  (\<open>good\<close>, \<open>needs_improvement\<close>).\<close>

definition thresholds :: "string \<rightharpoonup> real \<times> real" where
  "thresholds =
     [''lcp'' \<mapsto> (2.5, 4.0),
      ''fid'' \<mapsto> (100, 300),
      ''cls'' \<mapsto> (0.1, 0.25),
      ''fcp'' \<mapsto> (1.8, 3.0),
      ''ttfb'' \<mapsto> (0.8, 1.8)]"

definition categorize_metric :: "real \<Rightarrow> string \<Rightarrow> string" where
  "categorize_metric v metric_type =
     (case thresholds metric_type of
        None \<Rightarrow> ''unknown''
      | Some (good, needs_improvement) \<Rightarrow>
          if v \<le> good then ''good''
          else if v \<le> needs_improvement then ''needs_improvement''
          else ''poor'')"

text \<open>The thresholds as the specification publishes them.\<close>

definition published_thresholds :: "(string \<times> real \<times> real) list" where
  "published_thresholds =
     [(''lcp'', 5 / 2, 4), (''fid'', 100, 300), (''cls'', 1 / 10, 1 / 4),
      (''fcp'', 9 / 5, 3), (''ttfb'', 4 / 5, 9 / 5)]"

section \<open>GEO module: probes and summary\<close>

text \<open>
  \<open>round(x, ndigits)\<close> on the real model: to the nearest multiple of \<open>10 ^ -ndigits\<close>,
  an exact tie going to the even neighbour.
\<close>

definition round_half_even :: "real \<Rightarrow> int" where
  "round_half_even x =
     (let f = \<lfloor>x\<rfloor>; d = x - of_int f
      in if d < 1 / 2 then f
         else if 1 / 2 < d then f + 1
         else if even f then f else f + 1)"

definition py_round :: "real \<Rightarrow> nat \<Rightarrow> real" where
  "py_round x ndigits = of_int (round_half_even (x * 10 ^ ndigits)) / 10 ^ ndigits"

text \<open>
  \<open>BrandMention\<close>, \<open>GEOSummary\<close> and \<open>GEOResponse\<close>. The competitor list of a mention
  and the advisory strings of a response are derived from the same texts by further
  pattern matching and formatting; no statement below reads them and they are left out.
\<close>

record BrandMention =
  m_platform :: string
  m_query :: string
  m_mentioned :: bool
  m_context :: "string option"
  m_sentiment :: "string option"
  m_rank :: "nat option"

record GEOSummary =
  s_total_checks :: nat
  s_mentions_found :: nat
  s_mention_rate :: real
  s_sentiment_breakdown :: "string \<rightharpoonup> nat"
  s_average_rank :: "real option"

record GEOResponse =
  r_domain :: string
  r_keywords :: "string list"
  r_mentions :: "BrandMention list"
  r_summary :: GEOSummary

record GEORequest =
  req_domain :: string
  req_keywords :: "string list"

datatype http_error = HTTPException nat

text \<open>One probe: the \<open>BrandMention\<close> built from the text a platform answered, or the
  error that \<open>extract_rank\<close> raised while its fields were computed.\<close>

definition brand_mention ::
  "string \<Rightarrow> string \<Rightarrow> string \<Rightarrow> string \<Rightarrow> py_error + BrandMention" where
  "brand_mention pf q domain text =
     (let hit = contains (lower text) (lower domain)
      in case (if hit then extract_rank text domain else Inr None) of
           Inl e \<Rightarrow> Inl e
         | Inr rank \<Rightarrow>
             Inr \<lparr> m_platform = pf,
                   m_query = q,
                   m_mentioned = hit,
                   m_context = (if hit then Some (take 500 text) else None),
                   m_sentiment =
                     (if hit then Some (extract_sentiment lower (\<lambda>w. w) text domain)
                      else None),
                   m_rank = rank \<rparr>)"

definition build_queries :: "string \<Rightarrow> string list \<Rightarrow> string list" where
  "build_queries domain kws =
     [''What is '' @ domain @ ''?'',
      ''Who are the main competitors of '' @ domain @ ''?'']
     @ concat (map (\<lambda>keyword.
                      [''What are the best tools for '' @ keyword @ ''?'',
                       ''Compare top '' @ keyword @ '' platforms''])
                   (take 3 kws))"

text \<open>
  The loop over the queries. What the two platforms answer is outside the program: it
  is given by two functions from the number of the query and its text to the answer
  text, \<open>None\<close> when the answer cannot be read, which raises inside \<open>analyze_geo\<close>.
  The loop answers \<open>None\<close> when anything in it raised.
\<close>

fun probe_all ::
  "string \<Rightarrow> (nat \<Rightarrow> string \<Rightarrow> string option) \<Rightarrow> (nat \<Rightarrow> string \<Rightarrow> string option)
     \<Rightarrow> nat \<Rightarrow> string list \<Rightarrow> BrandMention list option" where
  "probe_all domain gemini chatgpt i [] = Some []"
| "probe_all domain gemini chatgpt i (q # qs) =
     (case gemini i q of
        None \<Rightarrow> None
      | Some gemini_text \<Rightarrow>
          (case brand_mention ''gemini'' q domain gemini_text of
             Inl e \<Rightarrow> None
           | Inr gemini_mention \<Rightarrow>
               (case chatgpt i q of
                  None \<Rightarrow> None
                | Some chatgpt_text \<Rightarrow>
                    (case brand_mention ''chatgpt'' q domain chatgpt_text of
                       Inl e \<Rightarrow> None
                     | Inr chatgpt_mention \<Rightarrow>
                         (case probe_all domain gemini chatgpt (i + 1) qs of
                            None \<Rightarrow> None
                          | Some ms \<Rightarrow> Some (gemini_mention # chatgpt_mention # ms))))))"

text \<open>\<open>d.get(k, 0)\<close> and the loop that fills \<open>sentiment_breakdown\<close>.\<close>

definition get0 :: "(string \<rightharpoonup> nat) \<Rightarrow> string \<Rightarrow> nat" where
  "get0 d k = (case d k of None \<Rightarrow> 0 | Some v \<Rightarrow> v)"

fun count_sentiments :: "BrandMention list \<Rightarrow> (string \<rightharpoonup> nat) \<Rightarrow> (string \<rightharpoonup> nat)" where
  "count_sentiments [] d = d"
| "count_sentiments (m # ms) d =
     count_sentiments ms
       (case m_sentiment m of
          None \<Rightarrow> d
        | Some s \<Rightarrow> if s \<noteq> [] then d(s \<mapsto> get0 d s + 1) else d)"

definition collect_ranks :: "BrandMention list \<Rightarrow> nat list" where
  "collect_ranks ms =
     concat (map (\<lambda>m. case m_rank m of
                         None \<Rightarrow> []
                       | Some r \<Rightarrow> if r \<noteq> 0 then [r] else []) ms)"

definition summarize :: "BrandMention list \<Rightarrow> GEOSummary" where
  "summarize ms =
     (let total = length ms;
          found = length (filter m_mentioned ms);
          rate = (if total > 0 then real found / real total else 0);
          ranks = collect_ranks ms
      in \<lparr> s_total_checks = total,
           s_mentions_found = found,
           s_mention_rate = py_round rate 2,
           s_sentiment_breakdown =
             count_sentiments ms [''positive'' \<mapsto> 0, ''negative'' \<mapsto> 0, ''neutral'' \<mapsto> 0],
           s_average_rank =
             (if ranks \<noteq> [] then Some (py_round (real (sum_list ranks) / real (length ranks)) 1)
              else None) \<rparr>)"

definition analyze_geo ::
  "GEORequest \<Rightarrow> (nat \<Rightarrow> string \<Rightarrow> string option) \<Rightarrow> (nat \<Rightarrow> string \<Rightarrow> string option)
     \<Rightarrow> http_error + GEOResponse" where
  "analyze_geo request gemini chatgpt =
     (let domain = clean_domain (req_domain request);
          queries = build_queries domain (req_keywords request)
      in case probe_all domain gemini chatgpt 0 queries of
           None \<Rightarrow> Inl (HTTPException 500)
         | Some ms \<Rightarrow>
             Inr \<lparr> r_domain = domain,
                   r_keywords = req_keywords request,
                   r_mentions = ms,
                   r_summary = summarize ms \<rparr>)"

text \<open>The mentions of a result, none when the call failed.\<close>

definition mentions_of :: "http_error + GEOResponse \<Rightarrow> BrandMention list" where
  "mentions_of res = (case res of Inl _ \<Rightarrow> [] | Inr resp \<Rightarrow> r_mentions resp)"

text \<open>A request whose domain holds a newline, and a backend that repeats it.\<close>

definition two_line_request :: GEORequest where
  "two_line_request = \<lparr> req_domain = ''acme'' @ [CHR 0x0A] @ ''corp'', req_keywords = [] \<rparr>"

definition two_line_backend :: "nat \<Rightarrow> string \<Rightarrow> string option" where
  "two_line_backend i q = Some (''We like acme'' @ [CHR 0x0A] @ ''corp a lot'')"

text \<open>A plain request and a backend that answers with a numbered list.\<close>

definition plain_request :: GEORequest where
  "plain_request = \<lparr> req_domain = ''https://www.Acme.com/'', req_keywords = [] \<rparr>"

definition list_backend :: "nat \<Rightarrow> string \<Rightarrow> string option" where
  "list_backend i q =
     Some (''Here are the best tools:'' @ [CHR 0x0A] @ ''1. Other.io'' @ [CHR 0x0A]
           @ ''2. acme.com - great and trusted'')"

definition silent_backend :: "nat \<Rightarrow> string \<Rightarrow> string option" where
  "silent_backend i q = Some ''I do not know.''"

text \<open>Two notions used to state what the summary counts: a mention carries a sentiment
  tag exactly when it is mentioned, and the tag is one of the three the classifier
  answers; \<open>tally\<close> adds the three counters of a breakdown.\<close>

definition sentiment_ok :: "BrandMention \<Rightarrow> bool" where
  "sentiment_ok m \<longleftrightarrow>
     (case m_sentiment m of
        None \<Rightarrow> \<not> m_mentioned m
      | Some s \<Rightarrow> m_mentioned m \<and> s \<in> {''positive'', ''negative'', ''neutral''})"

definition tally :: "(string \<rightharpoonup> nat) \<Rightarrow> nat" where
  "tally d = get0 d ''positive'' + get0 d ''negative'' + get0 d ''neutral''"

section \<open>SEO health: opportunities\<close>

text \<open>
  One entry of the Lighthouse \<open>audits\<close> dictionary, with the four keys that
  \<open>extract_opportunities\<close> reads; \<open>None\<close> is a key that is missing (for the score also
  a JSON \<open>null\<close>). A score is a number.
\<close>

record audit =
  a_title :: "string option"
  a_description :: "string option"
  a_score :: "real option"
  a_displayValue :: "string option"

record Opportunity =
  o_title :: string
  o_description :: string
  o_score :: "real option"
  o_savings :: "string option"
  o_priority :: string

definition opportunity_audits :: "string list" where
  "opportunity_audits =
     [''render-blocking-resources'',
      ''unused-css-rules'',
      ''unused-javascript'',
      ''modern-image-formats'',
      ''efficiently-encode-images'',
      ''offscreen-images'',
      ''minify-css'',
      ''minify-javascript'',
      ''remove-unused-css'',
      ''remove-unused-javascript'',
      ''uses-optimized-images'',
      ''uses-text-compression'',
      ''uses-responsive-images'',
      ''prioritize-lcp-image'',
      ''font-display'']"

text \<open>\<open>d.get(k, default)\<close> on an optional field.\<close>

definition get_or :: "'a option \<Rightarrow> 'a \<Rightarrow> 'a" where
  "get_or v dflt = (case v of None \<Rightarrow> dflt | Some x \<Rightarrow> x)"

definition make_opportunity :: "string \<Rightarrow> audit \<Rightarrow> Opportunity" where
  "make_opportunity audit_id a =
     \<lparr> o_title = get_or (a_title a) audit_id,
       o_description = get_or (a_description a) '''',
       o_score = a_score a,
       o_savings = Some (get_or (a_displayValue a) ''''),
       o_priority = (if get_or (a_score a) 1 < 0.5 then ''high'' else ''medium'') \<rparr>"

text \<open>The test of the loop body: the audit is there, its score is not \<open>None\<close> and is
  below 1. (An audit with a score is a non-empty dictionary, so its truth value adds
  nothing.)\<close>

definition is_opportunity :: "audit option \<Rightarrow> bool" where
  "is_opportunity a =
     (case a of
        None \<Rightarrow> False
      | Some au \<Rightarrow> (case a_score au of None \<Rightarrow> False | Some s \<Rightarrow> s < 1))"

definition collect_opportunities :: "(string \<rightharpoonup> audit) \<Rightarrow> Opportunity list" where
  "collect_opportunities audits =
     concat (map (\<lambda>audit_id.
                    if is_opportunity (audits audit_id)
                    then [make_opportunity audit_id (the (audits audit_id))]
                    else [])
                 opportunity_audits)"

text \<open>The sort key \<open>x.score or 1\<close>: \<open>None\<close> and the number 0 are both false in Python.\<close>

definition score_or_1 :: "Opportunity \<Rightarrow> real" where
  "score_or_1 x =
     (case o_score x of
        None \<Rightarrow> 1
      | Some s \<Rightarrow> if s = 0 then 1 else s)"

text \<open>\<open>list.sort(key=...)\<close> is stable, as \<open>sort_key\<close> is.\<close>

definition extract_opportunities :: "(string \<rightharpoonup> audit) \<Rightarrow> Opportunity list" where
  "extract_opportunities audits = sort_key score_or_1 (collect_opportunities audits)"

text \<open>An audit map with a check that fails completely (score 0) and one that is half
  way (score 0.5).\<close>

definition zero_score_audits :: "string \<rightharpoonup> audit" where
  "zero_score_audits =
     [''render-blocking-resources'' \<mapsto>
        \<lparr> a_title = Some ''Eliminate render-blocking resources'',
          a_description = Some ''Resources are blocking the first paint of your page.'',
          a_score = Some 0,
          a_displayValue = Some ''Potential savings of 1,200 ms'' \<rparr>,
      ''unused-css-rules'' \<mapsto>
        \<lparr> a_title = Some ''Reduce unused CSS'',
          a_description = Some ''Reduce unused rules from stylesheets.'',
          a_score = Some 0.5,
          a_displayValue = Some ''Potential savings of 40 KiB'' \<rparr>]"

text \<open>An opportunity with a given score, for the sorting example.\<close>

definition scored :: "real option \<Rightarrow> Opportunity" where
  "scored s =
     \<lparr> o_title = ''t'', o_description = ''d'', o_score = s, o_savings = None,
       o_priority = ''medium'' \<rparr>"

section \<open>Traffic estimation\<close>

text \<open>
  The claims about the traffic estimator depend on how its arithmetic rounds, so here a
  Python \<open>float\<close> is an IEEE 754 double: a real number that \<open>nearest_double\<close> leaves
  unchanged, and every operation on floats is the exact operation followed by rounding
  to the nearest double, a tie going to the even mantissa. A positive double is
  \<open>m * 2 ^ (e - 52)\<close> with \<open>2 ^ 52 \<le> m < 2 ^ 53\<close>, where \<open>e = exponent x\<close> is the
  largest \<open>e\<close> with \<open>2 ^ e \<le> x\<close>. The magnitudes that occur below are far from overflow
  and from the subnormal range, which are not modelled.
\<close>

definition exponent :: "real \<Rightarrow> int" where
  "exponent x = (if 1 \<le> x then bitlen \<lfloor>x\<rfloor> - 1 else - bitlen (\<lceil>1 / x\<rceil> - 1))"

definition nearest_double :: "real \<Rightarrow> real" where
  "nearest_double x =
     (let s = 52 - exponent x
      in real_of_int (round_half_even (x * 2 powi s)) / 2 powi s)"

definition to_double :: "real \<Rightarrow> real" where
  "to_double x =
     (if 0 < x then nearest_double x
      else if x < 0 then - nearest_double (- x)
      else 0)"


text \<open>A decimal literal, and \<open>x * y\<close>, \<open>x / y\<close>, \<open>x + y\<close> on floats (an \<open>int\<close> operand
  is converted first, exactly for the values that occur).\<close>

definition float_lit :: "real \<Rightarrow> real" where
  "float_lit q = to_double q"

definition fmul :: "real \<Rightarrow> real \<Rightarrow> real" where
  "fmul x y = to_double (x * y)"

definition fdiv :: "real \<Rightarrow> real \<Rightarrow> real" where
  "fdiv x y = to_double (x / y)"

definition fadd :: "real \<Rightarrow> real \<Rightarrow> real" where
  "fadd x y = to_double (x + y)"


text \<open>\<open>round(x, 1)\<close> on a float: the exact value of \<open>x\<close> is rounded to one decimal, a
  tie going to the even digit, and the result is the double nearest to that decimal.\<close>

definition round1 :: "real \<Rightarrow> real" where
  "round1 x = to_double (real_of_int (round_half_even (x * 10)) / 10)"

text \<open>\<open>int(x)\<close> on a float: truncation towards zero.\<close>

definition py_int :: "real \<Rightarrow> int" where
  "py_int x = (if 0 \<le> x then \<lfloor>x\<rfloor> else \<lceil>x\<rceil>)"


text \<open>
  A field declared \<open>int\<close> in a schema class (pydantic 2, which \<open>main.py\<close> requires
  through \<open>pydantic_settings\<close>) accepts an \<open>int\<close> and a float without fractional part,
  and rejects a float with a fractional part: the construction of the object raises.
\<close>

definition int_field :: "real \<Rightarrow> int option" where
  "int_field x = (if real_of_int \<lfloor>x\<rfloor> = x then Some \<lfloor>x\<rfloor> else None)"

text \<open>
  \<open>estimate_traffic_metrics\<close>: the three visit figures and their validation by
  \<open>TrafficMetrics\<close>; \<open>None\<close> when the construction raises. The value of
  \<open>random.randint(10000, 500000)\<close> is the parameter \<open>sampled\<close>. \<open>base_traffic\<close> is an
  \<open>int\<close> that becomes a \<open>float\<close> when it is multiplied by 1.5. The further random fields
  (visit duration, pages per visit, bounce rate) are optional, do not depend on the
  domain and are left out.
\<close>

record TrafficMetrics =
  monthly_visits :: int
  monthly_visits_min :: int
  monthly_visits_max :: int

definition estimate_traffic_metrics :: "int \<Rightarrow> string \<Rightarrow> TrafficMetrics option" where
  "estimate_traffic_metrics sampled domain =
     (let base0 = sampled;
          base1 = (if contains domain ''.gov'' \<or> contains domain ''.edu''
                   then base0 * 2 else base0);
          base_traffic = (if length domain < 10
                          then fmul (real_of_int base1) (float_lit 1.5)
                          else real_of_int base1);
          min_traffic = py_int (fmul base_traffic (float_lit 0.7));
          max_traffic = py_int (fmul base_traffic (float_lit 1.3))
      in case int_field base_traffic of
           None \<Rightarrow> None
         | Some visits \<Rightarrow>
             Some \<lparr> monthly_visits = visits,
                    monthly_visits_min = min_traffic,
                    monthly_visits_max = max_traffic \<rparr>)"









section \<open>SEO health: the analyze operation without a credential\<close>

text \<open>
  The request and response schemas. A field declared \<open>Optional[str]\<close> accepts
  \<open>None\<close>; a field declared \<open>str\<close> does not, and constructing the schema class with
  \<open>None\<close> for it raises a validation error.
\<close>

record SEOHealthRequest =
  q_url :: string
  q_strategy :: "string option"

record CoreWebVitals =
  lcp :: "real option"
  lcp_category :: "string option"
  fid :: "real option"
  fid_category :: "string option"
  cls :: "real option"
  cls_category :: "string option"
  fcp :: "real option"
  fcp_category :: "string option"
  ttfb :: "real option"
  ttfb_category :: "string option"

record SEOHealthResponse =
  h_url :: string
  h_strategy :: string
  performance_score :: "int option"
  seo_score :: "int option"
  accessibility_score :: "int option"
  best_practices_score :: "int option"
  core_web_vitals :: CoreWebVitals
  opportunities :: "Opportunity list"
  diagnostics :: "string list"
  metadata :: "(string \<times> string) list"
  recommendations :: "string list"

datatype api_error = ValidationError | HTTPError nat

text \<open>
  The random draws of \<open>get_demo_seo_data\<close>, in the order of the source, and the ranges
  that \<open>random.randint\<close>, \<open>random.uniform\<close> and \<open>random.choice\<close> keep them in.
\<close>

record demo_sample =
  d_performance :: int
  d_seo :: int
  d_accessibility :: int
  d_best_practices :: int
  d_lcp :: real
  d_lcp_category :: string
  d_fid :: int
  d_fid_category :: string
  d_cls :: real
  d_cls_category :: string
  d_fcp :: real
  d_ttfb :: real

definition valid_demo_sample :: "demo_sample \<Rightarrow> bool" where
  "valid_demo_sample s =
     (60 \<le> d_performance s \<and> d_performance s \<le> 95
      \<and> 70 \<le> d_seo s \<and> d_seo s \<le> 95
      \<and> 65 \<le> d_accessibility s \<and> d_accessibility s \<le> 90
      \<and> 75 \<le> d_best_practices s \<and> d_best_practices s \<le> 98
      \<and> 1.5 \<le> d_lcp s \<and> d_lcp s \<le> 3.5
      \<and> d_lcp_category s \<in> {''good'', ''needs_improvement'', ''poor''}
      \<and> 10 \<le> d_fid s \<and> d_fid s \<le> 150
      \<and> d_fid_category s \<in> {''good'', ''needs_improvement''}
      \<and> 0.01 \<le> d_cls s \<and> d_cls s \<le> 0.25
      \<and> d_cls_category s \<in> {''good'', ''needs_improvement'', ''poor''}
      \<and> 1.0 \<le> d_fcp s \<and> d_fcp s \<le> 2.5
      \<and> 0.4 \<le> d_ttfb s \<and> d_ttfb s \<le> 1.2)"

text \<open>
  The dictionary that \<open>get_demo_seo_data\<close> returns: the keyword arguments for
  \<open>SEOHealthResponse\<close>, with the strategy as the request carries it. (Each advisory
  string starts with a pictograph in the source, a code point outside the range of
  the string model; the text after it is kept.)
\<close>

record demo_seo_data =
  dd_url :: string
  dd_strategy :: "string option"
  dd_performance_score :: int
  dd_seo_score :: int
  dd_accessibility_score :: int
  dd_best_practices_score :: int
  dd_core_web_vitals :: CoreWebVitals
  dd_opportunities :: "Opportunity list"
  dd_diagnostics :: "string list"
  dd_metadata :: "(string \<times> string) list"
  dd_recommendations :: "string list"

definition get_demo_seo_data :: "demo_sample \<Rightarrow> string \<Rightarrow> string option \<Rightarrow> demo_seo_data" where
  "get_demo_seo_data s url strategy =
     \<lparr> dd_url = url,
       dd_strategy = strategy,
       dd_performance_score = d_performance s,
       dd_seo_score = d_seo s,
       dd_accessibility_score = d_accessibility s,
       dd_best_practices_score = d_best_practices s,
       dd_core_web_vitals =
         \<lparr> lcp = Some (py_round (d_lcp s) 2),
           lcp_category = Some (d_lcp_category s),
           fid = Some (real_of_int (d_fid s)),
           fid_category = Some (d_fid_category s),
           cls = Some (py_round (d_cls s) 3),
           cls_category = Some (d_cls_category s),
           fcp = Some (py_round (d_fcp s) 2),
           fcp_category = Some ''good'',
           ttfb = Some (py_round (d_ttfb s) 2),
           ttfb_category = Some ''good'' \<rparr>,
       dd_opportunities =
         [\<lparr> o_title = ''Eliminate render-blocking resources'',
            o_description = ''Resources are blocking the first paint of your page.'',
            o_score = Some 0.42,
            o_savings = Some ''1.2s'',
            o_priority = ''high'' \<rparr>,
          \<lparr> o_title = ''Properly size images'',
            o_description = ''Serve images that are appropriately-sized.'',
            o_score = Some 0.65,
            o_savings = Some ''0.8s'',
            o_priority = ''medium'' \<rparr>],
       dd_diagnostics = [],
       dd_metadata =
         [(''lighthouse_version'', ''11.0.0''),
          (''fetch_time'', ''2024-01-15T10:30:00Z''),
          (''demo_mode'', ''True'')],
       dd_recommendations =
         ['' Performance needs improvement. Consider lazy loading images.'',
          '' SEO Score could be improved. Check meta tags and headings.'',
          '' Accessibility score needs attention. Add alt text to images.''] \<rparr>"

text \<open>\<open>SEOHealthResponse(**demo_data)\<close>: the field \<open>strategy\<close> is declared \<open>str\<close>.\<close>

definition make_response :: "demo_seo_data \<Rightarrow> api_error + SEOHealthResponse" where
  "make_response d =
     (case dd_strategy d of
        None \<Rightarrow> Inl ValidationError
      | Some strategy \<Rightarrow>
          Inr \<lparr> h_url = dd_url d,
                h_strategy = strategy,
                performance_score = Some (dd_performance_score d),
                seo_score = Some (dd_seo_score d),
                accessibility_score = Some (dd_accessibility_score d),
                best_practices_score = Some (dd_best_practices_score d),
                core_web_vitals = dd_core_web_vitals d,
                opportunities = dd_opportunities d,
                diagnostics = dd_diagnostics d,
                metadata = dd_metadata d,
                recommendations = dd_recommendations d \<rparr>)"

text \<open>
  \<open>analyze_seo_health\<close>. With an empty key the demo data is returned, and the
  construction of the response is not inside the \<open>try\<close>. With a key the PageSpeed
  service is called; what that branch returns is the parameter \<open>live\<close>.
\<close>

definition analyze_seo_health ::
  "string \<Rightarrow> demo_sample \<Rightarrow> api_error + SEOHealthResponse \<Rightarrow> SEOHealthRequest
     \<Rightarrow> api_error + SEOHealthResponse" where
  "analyze_seo_health PAGESPEED_API_KEY s live request =
     (if PAGESPEED_API_KEY = []
      then make_response (get_demo_seo_data s (q_url request) (q_strategy request))
      else live)"

definition in_0_100 :: "int option \<Rightarrow> bool" where
  "in_0_100 v = (case v of None \<Rightarrow> False | Some n \<Rightarrow> 0 \<le> n \<and> n \<le> 100)"

section \<open>Report builder\<close>

text \<open>
  The four payloads of a report request are \<open>Dict[str, Any]\<close>: JSON values. A
  dictionary is an association list with distinct keys.
\<close>

datatype json =
    JNull
  | JBool bool
  | JNum real
  | JStr string
  | JList "json list"
  | JDict "(string \<times> json) list"

type_synonym dict = "(string \<times> json) list"

record ReportRequest =
  rq_url :: string
  rq_seo_data :: "dict option"
  rq_search_data :: "dict option"
  rq_geo_data :: "dict option"
  rq_traffic_data :: "dict option"
  rq_include_sections :: "string list"
  rq_company_name :: "string option"

text \<open>
  The document is the list \<open>elements\<close> of flowables that is handed to the layout
  library. A paragraph or a table cell holds marked-up text; the text is kept as a list
  of pieces: a literal of the source, a value rendered under a format specification
  (\<open>''''\<close> for \<open>str\<close>), or a named pictograph. Column widths and table styles are
  layout and are left out; a spacer keeps its height in inches.
\<close>

datatype piece = S string | V string json | Sym string

type_synonym markup = "piece list"

datatype pstyle =
  TitleStyle | SubtitleStyle | HeadingStyle | SubheadingStyle | BodyStyle | FooterStyle

datatype flowable =
    Paragraph markup pstyle
  | Spacer real
  | PageBreak
  | Table "markup list list"

subsection \<open>Python operations on JSON values\<close>

text \<open>
  An operation that raises (\<open>TypeError\<close>, \<open>AttributeError\<close>, \<open>ValueError\<close>) is
  \<open>None\<close>; \<open>generate_report\<close> turns every exception of \<open>create_pdf_report\<close> into
  the same server error.
\<close>

fun truthy :: "json \<Rightarrow> bool" where
  "truthy JNull = False"
| "truthy (JBool b) = b"
| "truthy (JNum x) = (x \<noteq> 0)"
| "truthy (JStr s) = (s \<noteq> [])"
| "truthy (JList l) = (l \<noteq> [])"
| "truthy (JDict d) = (d \<noteq> [])"

text \<open>\<open>request.seo_data\<close> used as a condition: not \<open>None\<close> and not empty.\<close>

definition payload_present :: "dict option \<Rightarrow> bool" where
  "payload_present p = (case p of None \<Rightarrow> False | Some d \<Rightarrow> d \<noteq> [])"

text \<open>\<open>k in d\<close>, \<open>d.get(k)\<close> (with \<open>None\<close> for a missing key) and \<open>d.get(k, dflt)\<close> on
  a dictionary.\<close>

definition has_key :: "dict \<Rightarrow> string \<Rightarrow> bool" where
  "has_key d k = (map_of d k \<noteq> None)"

definition get_d :: "dict \<Rightarrow> string \<Rightarrow> json \<Rightarrow> json" where
  "get_d d k dflt = (case map_of d k of None \<Rightarrow> dflt | Some v \<Rightarrow> v)"

text \<open>\<open>k in d and d[k]\<close>: the value under the key when it is there and true.\<close>

definition true_value :: "dict \<Rightarrow> string \<Rightarrow> json option" where
  "true_value d k =
     (case map_of d k of
        None \<Rightarrow> None
      | Some v \<Rightarrow> if truthy v then Some v else None)"

text \<open>\<open>v.get\<close> exists on dictionaries only.\<close>

fun as_dict :: "json \<Rightarrow> dict option" where
  "as_dict (JDict d) = Some d"
| "as_dict _ = None"

text \<open>A value in a comparison with a number, in arithmetic or under a numeric format
  specification: a number, or a Boolean read as 0 or 1.\<close>

fun num_of :: "json \<Rightarrow> real option" where
  "num_of (JNum x) = Some x"
| "num_of (JBool b) = Some (if b then 1 else 0)"
| "num_of _ = None"

text \<open>\<open>f"{v:spec}"\<close> for a numeric specification and \<open>f"{v*100:spec}"\<close>.\<close>

definition fmt_num :: "string \<Rightarrow> json \<Rightarrow> piece option" where
  "fmt_num spec v = (case num_of v of None \<Rightarrow> None | Some _ \<Rightarrow> Some (V spec v))"

definition fmt_pct :: "string \<Rightarrow> json \<Rightarrow> piece option" where
  "fmt_pct spec v = (case num_of v of None \<Rightarrow> None | Some x \<Rightarrow> Some (V spec (JNum (x * 100))))"

text \<open>\<open>s.capitalize()\<close> exists on strings only; the capitalized string is a rendering
  of the value.\<close>

fun capitalize :: "json \<Rightarrow> piece option" where
  "capitalize (JStr s) = Some (V ''capitalize'' (JStr s))"
| "capitalize _ = None"

text \<open>\<open>v[:5]\<close> and \<open>for x in v\<close>.\<close>

fun slice5 :: "json \<Rightarrow> json option" where
  "slice5 (JList l) = Some (JList (take 5 l))"
| "slice5 (JStr s) = Some (JStr (take 5 s))"
| "slice5 _ = None"

fun iterate :: "json \<Rightarrow> json list option" where
  "iterate (JList l) = Some l"
| "iterate (JStr s) = Some (map (\<lambda>c. JStr [c]) s)"
| "iterate (JDict d) = Some (map (\<lambda>kv. JStr (fst kv)) d)"
| "iterate _ = None"

subsection \<open>Title page, summary and key metrics\<close>

definition status_of :: "json \<Rightarrow> markup option" where
  "status_of score =
     (case num_of score of
        None \<Rightarrow> None
      | Some x \<Rightarrow>
          Some [S (if 90 \<le> x then ''Good''
                   else if 50 \<le> x then ''Needs Improvement''
                   else ''Poor'')])"

text \<open>One row of the key-metrics table: \<open>if key in seo: ...\<close>.\<close>

definition stats_row :: "dict \<Rightarrow> string \<Rightarrow> string \<Rightarrow> markup list list option" where
  "stats_row seo key label =
     (if has_key seo key
      then do {
        let score = get_d seo key (JNum 0);
        status \<leftarrow> status_of score;
        Some [[[S label], [V '''' score, S ''/100''], status]]
      }
      else Some [])"

definition visits_row :: "dict option \<Rightarrow> markup list list option" where
  "visits_row traffic_data =
     (case traffic_data of
        None \<Rightarrow> Some []
      | Some traffic \<Rightarrow>
          if traffic \<noteq> [] \<and> has_key traffic ''metrics''
          then do {
            metrics \<leftarrow> as_dict (get_d traffic ''metrics'' JNull);
            visits \<leftarrow> fmt_num '','' (get_d metrics ''monthly_visits'' (JNum 0));
            Some [[[S ''Est. Monthly Visits''], [visits], [S ''Estimated'']]]
          }
          else Some [])"

definition key_metrics :: "ReportRequest \<Rightarrow> flowable list option" where
  "key_metrics request =
     (case rq_seo_data request of
        None \<Rightarrow> Some []
      | Some seo \<Rightarrow>
          if seo = [] then Some []
          else do {
            r1 \<leftarrow> stats_row seo ''performance_score'' ''Performance'';
            r2 \<leftarrow> stats_row seo ''seo_score'' ''SEO'';
            r3 \<leftarrow> stats_row seo ''accessibility_score'' ''Accessibility'';
            r4 \<leftarrow> visits_row (rq_traffic_data request);
            Some [Paragraph [S ''Key Metrics Overview''] SubheadingStyle,
                  Table ([[[S ''Metric''], [S ''Score''], [S ''Status'']]] @ r1 @ r2 @ r3 @ r4),
                  Spacer 0.3]
          })"

text \<open>The title page; \<open>now\<close> is the formatted time of the call.\<close>

definition title_page :: "ReportRequest \<Rightarrow> string \<Rightarrow> flowable list" where
  "title_page request now =
     [Spacer 2,
      Paragraph [S ''SEO Audit Report''] TitleStyle,
      Spacer 0.3,
      Paragraph [S ''Website: '', V '''' (JStr (rq_url request))] SubtitleStyle,
      Spacer 0.2,
      Paragraph [S ''Generated: '', S now] SubtitleStyle]
     @ (case rq_company_name request of
          None \<Rightarrow> []
        | Some name \<Rightarrow>
            if name \<noteq> []
            then [Spacer 0.5, Paragraph [S ''Prepared for: '', S name] SubtitleStyle]
            else [])
     @ [PageBreak]"

definition executive_summary :: "ReportRequest \<Rightarrow> flowable list" where
  "executive_summary request =
     [Paragraph [S ''Executive Summary''] HeadingStyle,
      Spacer 0.2,
      Paragraph
        [S ''This comprehensive SEO audit report provides detailed analysis of <b>'',
         V '''' (JStr (rq_url request)),
         S (''</b>. The audit covers four key areas: SEO Health, Search Visibility, ''
            @ ''Generative Engine Optimization (GEO), and Traffic Estimation. Each section ''
            @ ''includes actionable recommendations to improve your online presence.'')]
        BodyStyle,
      Spacer 0.3]"

subsection \<open>Blocks shared by the sections\<close>

text \<open>
  The recommendations of a payload: \<open>if "recommendations" in d and d["recommendations"]\<close>,
  then a subheading, one bullet paragraph for each entry of
  \<open>d["recommendations"][:5]\<close>, and a spacer.
\<close>

definition bullet :: "json \<Rightarrow> flowable" where
  "bullet rec = Paragraph [Sym ''bullet'', S '' '', V '''' rec] BodyStyle"

definition recommendations_block :: "dict \<Rightarrow> string \<Rightarrow> flowable list option" where
  "recommendations_block d title =
     (case true_value d ''recommendations'' of
        None \<Rightarrow> Some []
      | Some recs \<Rightarrow> do {
          top \<leftarrow> slice5 recs;
          items \<leftarrow> iterate top;
          Some ([Paragraph [S title] SubheadingStyle] @ map bullet items @ [Spacer 0.2])
        })"

subsection \<open>SEO health section\<close>

definition rating_of :: "json \<Rightarrow> markup option" where
  "rating_of score =
     (case num_of score of
        None \<Rightarrow> None
      | Some x \<Rightarrow>
          Some (if 90 \<le> x then [Sym ''star'', S '' Excellent'']
                else if 70 \<le> x then [Sym ''check'', S '' Good'']
                else if 50 \<le> x then [Sym ''warning'', S '' Needs Work'']
                else [Sym ''cross'', S '' Poor'']))"

text \<open>\<open>seo.get(key)\<close> and \<open>if score is not None\<close>.\<close>

definition score_row :: "dict \<Rightarrow> string \<Rightarrow> string \<Rightarrow> markup list list option" where
  "score_row seo key category =
     (let score = get_d seo key JNull
      in if score \<noteq> JNull
         then do {
           rating \<leftarrow> rating_of score;
           Some [[[S category], [V '''' score, S ''/100''], rating]]
         }
         else Some [])"

definition status_icon :: "json \<Rightarrow> markup" where
  "status_icon status =
     (if status = JStr ''good'' then [Sym ''check'']
      else if status = JStr ''needs_improvement'' then [Sym ''warning'']
      else [Sym ''cross''])"

definition cwv_row :: "dict \<Rightarrow> string \<Rightarrow> string \<Rightarrow> string \<Rightarrow> string \<Rightarrow> markup list list" where
  "cwv_row cwv metric key target category_key =
     (let v = get_d cwv key JNull
      in if v \<noteq> JNull
         then [[[S metric], [V '''' v], [S target],
                status_icon (get_d cwv category_key JNull)]]
         else [])"

definition cwv_block :: "dict \<Rightarrow> flowable list option" where
  "cwv_block seo =
     (if has_key seo ''core_web_vitals''
      then do {
        cwv \<leftarrow> as_dict (get_d seo ''core_web_vitals'' JNull);
        Some [Paragraph [S ''Core Web Vitals''] SubheadingStyle,
              Table ([[[S ''Metric''], [S ''Value''], [S ''Target''], [S ''Status'']]]
                     @ cwv_row cwv ''LCP (Largest Contentful Paint)'' ''lcp'' ''< 2.5s''
                         ''lcp_category''
                     @ cwv_row cwv ''FID (First Input Delay)'' ''fid'' ''< 100ms''
                         ''fid_category''
                     @ cwv_row cwv ''CLS (Cumulative Layout Shift)'' ''cls'' ''< 0.1''
                         ''cls_category''
                     @ cwv_row cwv ''FCP (First Contentful Paint)'' ''fcp'' ''< 1.8s''
                         ''fcp_category''
                     @ cwv_row cwv ''TTFB (Time to First Byte)'' ''ttfb'' ''< 0.8s''
                         ''ttfb_category''),
              Spacer 0.3]
      }
      else Some [])"

definition seo_section :: "dict \<Rightarrow> flowable list option" where
  "seo_section seo =
     do {
       r1 \<leftarrow> score_row seo ''performance_score'' ''Performance'';
       r2 \<leftarrow> score_row seo ''seo_score'' ''SEO'';
       r3 \<leftarrow> score_row seo ''accessibility_score'' ''Accessibility'';
       r4 \<leftarrow> score_row seo ''best_practices_score'' ''Best Practices'';
       vitals \<leftarrow> cwv_block seo;
       recs \<leftarrow> recommendations_block seo ''SEO Recommendations'';
       Some ([Paragraph [S ''1. SEO Health Analysis''] HeadingStyle,
              Spacer 0.2,
              Paragraph [S ''Performance Scores''] SubheadingStyle,
              Table ([[[S ''Category''], [S ''Score''], [S ''Rating'']]] @ r1 @ r2 @ r3 @ r4),
              Spacer 0.3]
             @ vitals @ recs @ [PageBreak])
     }"

subsection \<open>Search visibility section\<close>

text \<open>\<open>if index.get(key): rows.append([label, str(index[key])])\<close>.\<close>

definition index_extra_row :: "dict \<Rightarrow> string \<Rightarrow> string \<Rightarrow> markup list list" where
  "index_extra_row index key label =
     (let v = get_d index key JNull
      in if truthy v then [[[S label], [V '''' v]]] else [])"

definition index_block :: "dict \<Rightarrow> flowable list option" where
  "index_block search =
     (case true_value search ''index_status'' of
        None \<Rightarrow> Some []
      | Some iv \<Rightarrow> do {
          index \<leftarrow> as_dict iv;
          Some [Paragraph [S ''Index Status''] SubheadingStyle,
                Table ([[[S ''Metric''], [S ''Value'']],
                        [[S ''Total Pages''], [V '''' (get_d index ''total_pages'' (JStr ''N/A''))]],
                        [[S ''Indexed Pages''],
                         [V '''' (get_d index ''indexed_pages'' (JStr ''N/A''))]],
                        [[S ''Not Indexed''],
                         [V '''' (get_d index ''not_indexed_pages'' (JStr ''N/A''))]]]
                       @ index_extra_row index ''pending_pages'' ''Pending''
                       @ index_extra_row index ''errors'' ''Errors''
                       @ index_extra_row index ''warnings'' ''Warnings''),
                Spacer 0.3]
        })"

definition perf_row :: "json \<Rightarrow> markup list option" where
  "perf_row pv =
     do {
       perf \<leftarrow> as_dict pv;
       ctr \<leftarrow> fmt_pct ''.2f'' (get_d perf ''ctr'' (JNum 0));
       position \<leftarrow> fmt_num ''.1f'' (get_d perf ''position'' (JNum 0));
       Some [[V '''' (get_d perf ''query'' (JStr ''''))],
             [V '''' (get_d perf ''clicks'' (JNum 0))],
             [V '''' (get_d perf ''impressions'' (JNum 0))],
             [ctr, S ''%''],
             [position]]
     }"

definition queries_block :: "dict \<Rightarrow> flowable list option" where
  "queries_block search =
     (case true_value search ''search_performance'' of
        None \<Rightarrow> Some []
      | Some pv \<Rightarrow> do {
          top \<leftarrow> slice5 pv;
          items \<leftarrow> iterate top;
          rows \<leftarrow> those (map perf_row items);
          Some [Paragraph [S ''Top Search Queries''] SubheadingStyle,
                Table ([[[S ''Query''], [S ''Clicks''], [S ''Impressions''], [S ''CTR''],
                         [S ''Position'']]] @ rows),
                Spacer 0.3]
        })"

definition search_section :: "dict \<Rightarrow> flowable list option" where
  "search_section search =
     do {
       index \<leftarrow> index_block search;
       queries \<leftarrow> queries_block search;
       recs \<leftarrow> recommendations_block search ''Search Visibility Recommendations'';
       Some ([Paragraph [S ''2. Search Visibility Analysis''] HeadingStyle, Spacer 0.2]
             @ index @ queries @ recs @ [PageBreak])
     }"

subsection \<open>GEO section\<close>

text \<open>One entry of \<open>sentiment.items()\<close>: a paragraph when the count is positive.\<close>

definition sentiment_line :: "string \<times> json \<Rightarrow> flowable list option" where
  "sentiment_line kv =
     (case num_of (snd kv) of
        None \<Rightarrow> None
      | Some n \<Rightarrow>
          if 0 < n
          then Some [Paragraph
                       [Sym (if fst kv = ''positive'' then ''smile''
                             else if fst kv = ''negative'' then ''frown''
                             else ''neutral_face''),
                        S '' '', V ''capitalize'' (JStr (fst kv)), S '': '', V '''' (snd kv)]
                       BodyStyle]
          else Some [])"

definition sentiment_block :: "dict \<Rightarrow> flowable list option" where
  "sentiment_block summary =
     (if has_key summary ''sentiment_breakdown''
      then do {
        sentiment \<leftarrow> as_dict (get_d summary ''sentiment_breakdown'' JNull);
        lines \<leftarrow> those (map sentiment_line sentiment);
        Some ([Paragraph [S ''Sentiment Analysis''] SubheadingStyle] @ concat lines
              @ [Spacer 0.2])
      }
      else Some [])"

definition geo_summary_block :: "dict \<Rightarrow> flowable list option" where
  "geo_summary_block geo =
     (if has_key geo ''summary''
      then do {
        summary \<leftarrow> as_dict (get_d geo ''summary'' JNull);
        rate \<leftarrow> fmt_pct ''.1f'' (get_d summary ''mention_rate'' (JNum 0));
        sentiments \<leftarrow> sentiment_block summary;
        Some ([Paragraph [S ''AI Visibility Summary''] SubheadingStyle,
               Paragraph
                 [S ''<b>Total Checks:</b> '', V '''' (get_d summary ''total_checks'' (JNum 0)),
                  S ''<br/><b>Mentions Found:</b> '',
                  V '''' (get_d summary ''mentions_found'' (JNum 0)),
                  S ''<br/><b>Mention Rate:</b> '', rate,
                  S ''%<br/><b>Average Rank:</b> '',
                  V '''' (get_d summary ''average_rank'' (JStr ''N/A'')),
                  S ''<br/>'']
                 BodyStyle,
               Spacer 0.2]
              @ sentiments)
      }
      else Some [])"

definition geo_section :: "dict \<Rightarrow> flowable list option" where
  "geo_section geo =
     do {
       summary \<leftarrow> geo_summary_block geo;
       recs \<leftarrow> recommendations_block geo ''GEO Recommendations'';
       Some ([Paragraph [S ''3. Generative Engine Optimization (GEO)''] HeadingStyle,
              Spacer 0.2]
             @ summary @ recs @ [PageBreak])
     }"

subsection \<open>Traffic section\<close>

definition metrics_block :: "dict \<Rightarrow> flowable list option" where
  "metrics_block traffic =
     (if has_key traffic ''metrics''
      then do {
        metrics \<leftarrow> as_dict (get_d traffic ''metrics'' JNull);
        visits \<leftarrow> fmt_num '','' (get_d metrics ''monthly_visits'' (JNum 0));
        visits_min \<leftarrow> fmt_num '','' (get_d metrics ''monthly_visits_min'' (JNum 0));
        visits_max \<leftarrow> fmt_num '','' (get_d metrics ''monthly_visits_max'' (JNum 0));
        bounce \<leftarrow> fmt_pct ''.1f'' (get_d metrics ''bounce_rate'' (JNum 0));
        confidence \<leftarrow> capitalize (get_d traffic ''confidence_level'' (JStr ''N/A''));
        trend \<leftarrow> capitalize (get_d traffic ''growth_trend'' (JStr ''N/A''));
        Some [Paragraph [S ''Traffic Metrics''] SubheadingStyle,
              Paragraph
                [S ''<b>Estimated Monthly Visits:</b> '', visits,
                 S '' (Range: '', visits_min, S '' - '', visits_max,
                 S '')<br/><b>Average Visit Duration:</b> '',
                 V '''' (get_d metrics ''avg_visit_duration'' (JStr ''N/A'')),
                 S ''<br/><b>Pages per Visit:</b> '',
                 V '''' (get_d metrics ''pages_per_visit'' (JStr ''N/A'')),
                 S ''<br/><b>Bounce Rate:</b> '', bounce,
                 S ''%<br/><b>Confidence Level:</b> '', confidence,
                 S ''<br/><b>Growth Trend:</b> '', trend, S ''<br/>'']
                BodyStyle,
              Spacer 0.2]
      }
      else Some [])"

definition source_row :: "json \<Rightarrow> markup list option" where
  "source_row sv =
     do {
       source \<leftarrow> as_dict sv;
       visits \<leftarrow> fmt_num '','' (get_d source ''estimated_visits'' (JNum 0));
       Some [[V '''' (get_d source ''source'' (JStr ''''))],
             [V '''' (get_d source ''percentage'' (JNum 0)), S ''%''],
             [visits]]
     }"

text \<open>The loop over \<open>traffic["traffic_sources"]\<close> takes every entry: there is no
  slice.\<close>

definition sources_block :: "dict \<Rightarrow> flowable list option" where
  "sources_block traffic =
     (case true_value traffic ''traffic_sources'' of
        None \<Rightarrow> Some []
      | Some sv \<Rightarrow> do {
          items \<leftarrow> iterate sv;
          rows \<leftarrow> those (map source_row items);
          Some [Paragraph [S ''Traffic Sources''] SubheadingStyle,
                Table ([[[S ''Source''], [S ''Percentage''], [S ''Est. Visits'']]] @ rows),
                Spacer 0.3]
        })"

text \<open>\<open>f"{kw.get(key, 0):spec}" if kw.get(key) else "N/A"\<close>.\<close>

definition fmt_or_na :: "string \<Rightarrow> string \<Rightarrow> json \<Rightarrow> markup option" where
  "fmt_or_na pre spec v =
     (if truthy v
      then (case fmt_num spec v of None \<Rightarrow> None | Some p \<Rightarrow> Some [S pre, p])
      else Some [S ''N/A''])"

definition keyword_row :: "json \<Rightarrow> markup list option" where
  "keyword_row kv =
     do {
       kw \<leftarrow> as_dict kv;
       volume \<leftarrow> fmt_or_na '''' '','' (get_d kw ''volume'' JNull);
       cpc \<leftarrow> fmt_or_na ''$'' ''.2f'' (get_d kw ''cpc'' JNull);
       Some [[V '''' (get_d kw ''keyword'' (JStr ''''))],
             [V '''' (get_d kw ''position'' (JStr ''N/A''))],
             volume,
             cpc]
     }"

definition keywords_block :: "dict \<Rightarrow> flowable list option" where
  "keywords_block traffic =
     (case true_value traffic ''top_keywords'' of
        None \<Rightarrow> Some []
      | Some kv \<Rightarrow> do {
          top \<leftarrow> slice5 kv;
          items \<leftarrow> iterate top;
          rows \<leftarrow> those (map keyword_row items);
          Some [Paragraph [S ''Top Keywords''] SubheadingStyle,
                Table ([[[S ''Keyword''], [S ''Position''], [S ''Volume''], [S ''CPC'']]]
                       @ rows),
                Spacer 0.3]
        })"

definition traffic_section :: "dict \<Rightarrow> flowable list option" where
  "traffic_section traffic =
     do {
       metrics \<leftarrow> metrics_block traffic;
       sources \<leftarrow> sources_block traffic;
       keywords \<leftarrow> keywords_block traffic;
       recs \<leftarrow> recommendations_block traffic ''Traffic Recommendations'';
       Some ([Paragraph [S ''4. Traffic Estimation''] HeadingStyle, Spacer 0.2]
             @ metrics @ sources @ keywords @ recs)
     }"

subsection \<open>The whole document\<close>

text \<open>\<open>if name in request.include_sections and payload:\<close> the section, else nothing.\<close>

definition section_if ::
  "ReportRequest \<Rightarrow> string \<Rightarrow> dict option \<Rightarrow> (dict \<Rightarrow> flowable list option)
     \<Rightarrow> flowable list option" where
  "section_if request name payload build =
     (if name \<in> set (rq_include_sections request) \<and> payload_present payload
      then build (the payload)
      else Some [])"

definition footer :: "flowable list" where
  "footer =
     [Spacer 0.5,
      Paragraph
        [S (''<i>This report was generated automatically by the SEO Audit Tool. ''
            @ ''Traffic estimates and AI visibility data are approximations and should be ''
            @ ''used for guidance only. For exact figures, please consult your analytics ''
            @ ''platforms.</i>'')]
        FooterStyle]"

definition create_pdf_report :: "ReportRequest \<Rightarrow> string \<Rightarrow> flowable list option" where
  "create_pdf_report request now =
     do {
       stats \<leftarrow> key_metrics request;
       seo \<leftarrow> section_if request ''seo'' (rq_seo_data request) seo_section;
       search \<leftarrow> section_if request ''search'' (rq_search_data request) search_section;
       geo \<leftarrow> section_if request ''geo'' (rq_geo_data request) geo_section;
       traffic \<leftarrow> section_if request ''traffic'' (rq_traffic_data request) traffic_section;
       Some (title_page request now @ executive_summary request @ stats @ [PageBreak]
             @ seo @ search @ geo @ traffic @ footer)
     }"

subsection \<open>Reading a document\<close>

fun heading_text :: "flowable \<Rightarrow> markup option" where
  "heading_text (Paragraph t HeadingStyle) = Some t"
| "heading_text _ = None"

text \<open>The headings of a document, in order.\<close>

definition headings :: "flowable list \<Rightarrow> markup list" where
  "headings els = List.map_filter heading_text els"

fun table_rows :: "flowable \<Rightarrow> nat option" where
  "table_rows (Table rows) = Some (length rows)"
| "table_rows _ = None"

text \<open>The number of rows of each table of a document, in order.\<close>

definition table_sizes :: "flowable list \<Rightarrow> nat list" where
  "table_sizes els = List.map_filter table_rows els"



subsection \<open>Sample payloads\<close>






definition null_score_request :: ReportRequest where
  "null_score_request =
     \<lparr> rq_url = ''https://example.com/'',
       rq_seo_data = Some [(''performance_score'', JNull)],
       rq_search_data = None,
       rq_geo_data = None,
       rq_traffic_data = None,
       rq_include_sections = [''seo''],
       rq_company_name = None \<rparr>"

section \<open>Theorems\<close>

subsection \<open>Core Web Vitals\<close>

lemma thresholds_lcp: "thresholds ''lcp'' = Some (5 / 2, 4)"
  by (simp add: thresholds_def)

lemma thresholds_fid: "thresholds ''fid'' = Some (100, 300)"
  by (simp add: thresholds_def)

lemma thresholds_cls: "thresholds ''cls'' = Some (1 / 10, 1 / 4)"
  by (simp add: thresholds_def)

lemma thresholds_fcp: "thresholds ''fcp'' = Some (9 / 5, 3)"
  by (simp add: thresholds_def)

lemma thresholds_ttfb: "thresholds ''ttfb'' = Some (4 / 5, 9 / 5)"
  by (simp add: thresholds_def)

text \<open>
  C4. For each of the five metric types, with the published pair of thresholds
  (LCP 2.5/4.0, FID 100/300, CLS 0.1/0.25, FCP 1.8/3.0, TTFB 0.8/1.8), the categorizer
  answers \<open>good\<close> when the value is at most the first threshold, \<open>needs_improvement\<close>
  when it is above the first and at most the second, and \<open>poor\<close> above the second.
\<close>

theorem categorize_metric_thresholds:
  assumes "(m, g, n) \<in> set published_thresholds"
  shows "categorize_metric v m =
           (if v \<le> g then ''good''
            else if v \<le> n then ''needs_improvement''
            else ''poor'')"
  using assms unfolding published_thresholds_def categorize_metric_def
  by (auto simp: thresholds_lcp thresholds_fid thresholds_cls thresholds_fcp
      thresholds_ttfb)

theorem categorize_metric_thresholds_witness:
  "(''lcp'', 5 / 2, 4) \<in> set published_thresholds
   \<and> categorize_metric 2.4 ''lcp'' = ''good''
   \<and> categorize_metric 2.5 ''lcp'' = ''good''
   \<and> categorize_metric 3.0 ''lcp'' = ''needs_improvement''
   \<and> categorize_metric 4.0 ''lcp'' = ''needs_improvement''
   \<and> categorize_metric 5.0 ''lcp'' = ''poor''"
proof -
  have h: "(''lcp'', 5 / 2, 4) \<in> set published_thresholds"
    by (simp add: published_thresholds_def)
  show ?thesis
    using h
      categorize_metric_thresholds [OF h, of "2.4"]
      categorize_metric_thresholds [OF h, of "2.5"]
      categorize_metric_thresholds [OF h, of "3.0"]
      categorize_metric_thresholds [OF h, of "4.0"]
      categorize_metric_thresholds [OF h, of "5.0"]
    by simp
qed

subsection \<open>Domain cleaning\<close>

lemma lower_char_idem: "lower_char (lower_char c) = lower_char c"
proof -
  have "(of_char c :: nat) < 256" by simp
  then show ?thesis
    by (auto simp: lower_char_def Let_def)
qed

lemma lower_idem: "lower (lower s) = lower s"
  by (simp add: lower_def lower_char_idem)

lemma lower_fixed_subset:
  assumes "set t \<subseteq> set (lower s)"
  shows "lower t = t"
proof -
  have "lower_char x = x" if "x \<in> set t" for x
  proof -
    from that assms obtain y where "x = lower_char y" by (auto simp: lower_def)
    then show ?thesis by (simp add: lower_char_idem)
  qed
  then show ?thesis by (simp add: lower_def map_idI)
qed

lemma set_strip: "set (strip s) \<subseteq> set s"
  by (auto simp: strip_def dest!: set_dropWhileD)

lemma set_rstrip_slash: "set (rstrip_slash s) \<subseteq> set s"
  by (auto simp: rstrip_slash_def dest!: set_dropWhileD)

lemma set_sub_scheme: "set (sub_scheme s) \<subseteq> set s"
  by (auto simp: sub_scheme_def dest: in_set_dropD)

lemma set_sub_www: "set (sub_www s) \<subseteq> set s"
  by (auto simp: sub_www_def dest: in_set_dropD)

lemma set_clean_domain: "set (clean_domain d) \<subseteq> set (lower d)"
  unfolding clean_domain_def Let_def
  using set_strip set_rstrip_slash set_sub_scheme set_sub_www by blast

lemma rstrip_slash_idem: "rstrip_slash (rstrip_slash s) = rstrip_slash s"
  by (simp add: rstrip_slash_def)

lemma length_strip: "length (strip s) \<le> length s"
proof -
  have "length (strip s) \<le> length (dropWhile isspace s)"
    unfolding strip_def using length_dropWhile_le [of isspace "rev (dropWhile isspace s)"] by simp
  also have "\<dots> \<le> length s" by (rule length_dropWhile_le)
  finally show ?thesis .
qed

lemma length_rstrip_slash: "length (rstrip_slash s) \<le> length s"
  unfolding rstrip_slash_def
  using length_dropWhile_le [of "\<lambda>c. c = CHR ''/''" "rev s"] by simp

lemma length_sub_scheme: "length (sub_scheme s) \<le> length s"
  by (simp add: sub_scheme_def)

lemma length_sub_www: "length (sub_www s) \<le> length s"
  by (simp add: sub_www_def)

lemma dropWhile_length_eq: "length (dropWhile P xs) = length xs \<Longrightarrow> dropWhile P xs = xs"
proof (cases xs)
  case Nil
  then show ?thesis by simp
next
  case (Cons a list)
  assume eq: "length (dropWhile P xs) = length xs"
  show ?thesis
  proof (cases "P a")
    case True
    with Cons eq have "length (dropWhile P list) = Suc (length list)" by simp
    with length_dropWhile_le [of P list] show ?thesis by simp
  next
    case False
    with Cons show ?thesis by simp
  qed
qed

lemma strip_length_eq:
  assumes "length (strip s) = length s"
  shows "strip s = s"
proof -
  have a: "length (strip s) \<le> length (dropWhile isspace s)"
    unfolding strip_def using length_dropWhile_le [of isspace "rev (dropWhile isspace s)"] by simp
  have b: "length (dropWhile isspace s) \<le> length s" by (rule length_dropWhile_le)
  from a b assms have e1: "length (dropWhile isspace s) = length s" by simp
  then have d1: "dropWhile isspace s = s" by (rule dropWhile_length_eq)
  from assms d1 have "length (dropWhile isspace (rev s)) = length (rev s)"
    by (simp add: strip_def)
  then have "dropWhile isspace (rev s) = rev s" by (rule dropWhile_length_eq)
  with d1 show ?thesis by (simp add: strip_def)
qed

lemma rstrip_slash_length_eq:
  assumes "length (rstrip_slash s) = length s"
  shows "rstrip_slash s = s"
proof -
  from assms have "length (dropWhile (\<lambda>c. c = CHR ''/'') (rev s)) = length (rev s)"
    by (simp add: rstrip_slash_def)
  then have "dropWhile (\<lambda>c. c = CHR ''/'') (rev s) = rev s" by (rule dropWhile_length_eq)
  then show ?thesis by (simp add: rstrip_slash_def)
qed

lemma startswith_length: "startswith s p \<Longrightarrow> length p \<le> length s"
  unfolding startswith_def by (metis length_take min.cobounded1)

lemma sub_scheme_fixed_iff:
  "sub_scheme s = s \<longleftrightarrow> \<not> startswith s ''http://'' \<and> \<not> startswith s ''https://''"
proof -
  have a: "drop 7 s \<noteq> s" if "startswith s ''http://''"
  proof
    assume "drop 7 s = s"
    then have "length (drop 7 s) = length s" by simp
    with startswith_length [OF that] show False by simp
  qed
  have b: "drop 8 s \<noteq> s" if "startswith s ''https://''"
  proof
    assume "drop 8 s = s"
    then have "length (drop 8 s) = length s" by simp
    with startswith_length [OF that] show False by simp
  qed
  show ?thesis using a b by (auto simp: sub_scheme_def)
qed

lemma sub_www_fixed_iff: "sub_www s = s \<longleftrightarrow> \<not> startswith s ''www.''"
proof -
  have a: "drop 4 s \<noteq> s" if "startswith s ''www.''"
  proof
    assume "drop 4 s = s"
    then have "length (drop 4 s) = length s" by simp
    with startswith_length [OF that] show False by simp
  qed
  show ?thesis using a by (auto simp: sub_www_def)
qed

lemma clean_domain_fixed_iff:
  "clean_domain c = c \<longleftrightarrow>
     lower c = c \<and> strip c = c \<and> \<not> startswith c ''http://'' \<and> \<not> startswith c ''https://''
     \<and> \<not> startswith c ''www.'' \<and> rstrip_slash c = c"
proof
  assume r: "lower c = c \<and> strip c = c \<and> \<not> startswith c ''http://'' \<and> \<not> startswith c ''https://''
     \<and> \<not> startswith c ''www.'' \<and> rstrip_slash c = c"
  then have "sub_scheme c = c" "sub_www c = c"
    by (simp_all add: sub_scheme_fixed_iff sub_www_fixed_iff)
  with r show "clean_domain c = c" by (simp add: clean_domain_def)
next
  assume fx: "clean_domain c = c"
  let ?a = "lower c"
  let ?b = "strip ?a"
  let ?d = "sub_scheme ?b"
  let ?e = "sub_www ?d"
  have c_eq: "rstrip_slash ?e = c" using fx by (simp add: clean_domain_def)
  have l0: "length ?a = length c" by (simp add: lower_def)
  have l1: "length ?b \<le> length ?a" by (rule length_strip)
  have l2: "length ?d \<le> length ?b" by (rule length_sub_scheme)
  have l3: "length ?e \<le> length ?d" by (rule length_sub_www)
  have l4: "length (rstrip_slash ?e) \<le> length ?e" by (rule length_rstrip_slash)
  have l5: "length (rstrip_slash ?e) = length c" using c_eq by simp
  have low: "lower c = c" using set_clean_domain [of c] fx lower_fixed_subset by metis
  have e1: "length ?b = length ?a" using l0 l1 l2 l3 l4 l5 by linarith
  then have s1: "?b = ?a" by (rule strip_length_eq)
  have e2: "length ?d = length ?b" using l0 l1 l2 l3 l4 l5 by linarith
  have s2: "?d = ?b"
  proof (rule ccontr)
    assume "?d \<noteq> ?b"
    then have "startswith ?b ''http://'' \<or> startswith ?b ''https://''"
      by (simp add: sub_scheme_fixed_iff)
    then have "length ?d < length ?b"
      by (auto simp: sub_scheme_def dest: startswith_length)
    with e2 show False by simp
  qed
  have e3: "length ?e = length ?d" using l0 l1 l2 l3 l4 l5 by linarith
  have s3: "?e = ?d"
  proof (rule ccontr)
    assume "?e \<noteq> ?d"
    then have "startswith ?d ''www.''" by (simp add: sub_www_fixed_iff)
    then have "length ?e < length ?d"
      by (auto simp: sub_www_def dest: startswith_length)
    with e3 show False by simp
  qed
  have e4: "length (rstrip_slash ?e) = length ?e" using l0 l1 l2 l3 l4 l5 by linarith
  then have s4: "rstrip_slash ?e = ?e" by (rule rstrip_slash_length_eq)
  from s1 low have t1: "strip c = c" by simp
  from s2 s1 low have t2: "sub_scheme c = c" by simp
  from s3 s2 s1 low have t3: "sub_www c = c" by simp
  from s4 s3 s2 s1 low have t4: "rstrip_slash c = c" by simp
  from low t1 t2 t3 t4
  show "lower c = c \<and> strip c = c \<and> \<not> startswith c ''http://'' \<and> \<not> startswith c ''https://''
     \<and> \<not> startswith c ''www.'' \<and> rstrip_slash c = c"
    by (simp add: sub_scheme_fixed_iff sub_www_fixed_iff)
qed

lemma startswith_split: "startswith s p \<Longrightarrow> s = p @ drop (length p) s"
  using append_take_drop_id [of "length p" s] by (simp add: startswith_def)

lemma length_7: "length ''http://'' = 7"
  by simp

lemma length_8: "length ''https://'' = 8"
  by simp

lemma length_4: "length ''www.'' = 4"
  by simp

lemma strip_parts:
  "\<exists>ws1 ws2. s = ws1 @ strip s @ ws2
      \<and> (\<forall>c\<in>set ws1. isspace c) \<and> (\<forall>c\<in>set ws2. isspace c)
      \<and> (strip s \<noteq> [] \<longrightarrow> \<not> isspace (hd (strip s)) \<and> \<not> isspace (last (strip s)))"
proof -
  let ?r = "dropWhile isspace s"
  let ?ws1 = "takeWhile isspace s"
  let ?ws2 = "rev (takeWhile isspace (rev ?r))"
  have a: "s = ?ws1 @ ?r" by simp
  have "rev (takeWhile isspace (rev ?r) @ dropWhile isspace (rev ?r)) = rev (rev ?r)"
    by (simp only: takeWhile_dropWhile_id)
  then have "rev (dropWhile isspace (rev ?r)) @ ?ws2 = ?r"
    by (simp only: rev_append rev_rev_ident)
  then have b: "?r = strip s @ ?ws2" by (simp only: strip_def)
  from a b have e: "s = ?ws1 @ strip s @ ?ws2" by simp
  have w1: "\<forall>c\<in>set ?ws1. isspace c" by (auto dest: set_takeWhileD)
  have w2: "\<forall>c\<in>set ?ws2. isspace c" by (auto dest: set_takeWhileD)
  have ends: "\<not> isspace (hd (strip s)) \<and> \<not> isspace (last (strip s))" if ne: "strip s \<noteq> []"
  proof -
    from ne have n1: "dropWhile isspace (rev ?r) \<noteq> []" by (simp add: strip_def)
    then have "\<not> isspace (hd (dropWhile isspace (rev ?r)))" by (rule hd_dropWhile)
    then have l: "\<not> isspace (last (strip s))"
      using n1 by (simp add: strip_def last_rev)
    have "strip s = []" if "?r = []"
      using b unfolding that by simp
    with ne have n2: "?r \<noteq> []" by blast
    then have "\<not> isspace (hd ?r)" by (rule hd_dropWhile)
    moreover from b ne have "hd ?r = hd (strip s)" by (metis hd_append2)
    ultimately show ?thesis using l by simp
  qed
  from e w1 w2 ends show ?thesis by blast
qed

lemma rstrip_slash_parts:
  "\<exists>sl. s = rstrip_slash s @ sl \<and> set sl \<subseteq> {CHR ''/''}
      \<and> (rstrip_slash s \<noteq> [] \<longrightarrow> last (rstrip_slash s) \<noteq> CHR ''/'')"
proof -
  let ?P = "\<lambda>c. c = CHR ''/''"
  let ?sl = "rev (takeWhile ?P (rev s))"
  have "rev (takeWhile ?P (rev s) @ dropWhile ?P (rev s)) = rev (rev s)"
    by (simp only: takeWhile_dropWhile_id)
  then have "rev (dropWhile ?P (rev s)) @ ?sl = s"
    by (simp only: rev_append rev_rev_ident)
  then have e: "s = rstrip_slash s @ ?sl" by (simp only: rstrip_slash_def)
  have w: "set ?sl \<subseteq> {CHR ''/''}" by (auto dest: set_takeWhileD)
  have l: "last (rstrip_slash s) \<noteq> CHR ''/''" if ne: "rstrip_slash s \<noteq> []"
  proof -
    from ne have n1: "dropWhile ?P (rev s) \<noteq> []" by (simp add: rstrip_slash_def)
    then have "\<not> ?P (hd (dropWhile ?P (rev s)))" by (rule hd_dropWhile)
    then show ?thesis using n1 by (simp add: rstrip_slash_def last_rev)
  qed
  from e w l show ?thesis by blast
qed

lemma sub_scheme_parts:
  "\<exists>sch. s = sch @ sub_scheme s \<and> sch \<in> {[], ''http://'', ''https://''}
      \<and> (sch = [] \<longrightarrow> \<not> startswith s ''http://'' \<and> \<not> startswith s ''https://'')"
proof (cases "startswith s ''http://''")
  case True
  then have "s = ''http://'' @ drop 7 s"
    using startswith_split [of s "''http://''"] by (simp only: length_7)
  with True show ?thesis by (intro exI [of _ "''http://''"]) (simp add: sub_scheme_def)
next
  case False
  show ?thesis
  proof (cases "startswith s ''https://''")
    case True
    then have "s = ''https://'' @ drop 8 s"
      using startswith_split [of s "''https://''"] by (simp only: length_8)
    with True False show ?thesis by (intro exI [of _ "''https://''"]) (simp add: sub_scheme_def)
  next
    case f2: False
    with False show ?thesis by (intro exI [of _ "[]"]) (simp add: sub_scheme_def)
  qed
qed

lemma sub_www_parts:
  "\<exists>w. s = w @ sub_www s \<and> w \<in> {[], ''www.''} \<and> (w = [] \<longrightarrow> \<not> startswith s ''www.'')"
proof (cases "startswith s ''www.''")
  case True
  then have "s = ''www.'' @ drop 4 s"
    using startswith_split [of s "''www.''"] by (simp only: length_4)
  with True show ?thesis by (intro exI [of _ "''www.''"]) (simp add: sub_www_def)
next
  case False
  then show ?thesis by (intro exI [of _ "[]"]) (simp add: sub_www_def)
qed


text \<open>
  C2 as stated fails: cleaning removes one \<open>www.\<close> prefix, so a domain that carries
  two of them is changed again by a second cleaning.
\<close>

theorem clean_domain_not_idempotent:
  "clean_domain (clean_domain ''www.www.example.com'') \<noteq> clean_domain ''www.www.example.com''"
  by code_simp

text \<open>
  C2, amended. Cleaning lower-cases its input, strips white space at both ends, then
  removes one leading \<open>http://\<close> or \<open>https://\<close>, then one leading \<open>www.\<close>, then all
  trailing slashes: the lower-cased input is white space, at most one scheme, at most
  one \<open>www.\<close>, the cleaned domain, slashes and white space, in this order, where the
  scheme and the \<open>www.\<close> are left out only when the string does not begin with them, the
  part between the white space neither begins nor ends with white space, and the cleaned
  domain does not end with a slash. The cleaned domain is lower-case, and cleaning
  it a second time changes nothing exactly when it has no white space at either end and
  does not itself begin with \<open>http://\<close>, \<open>https://\<close> or \<open>www.\<close>.
\<close>

theorem clean_domain_idempotent_iff:
  "(\<exists>ws1 core ws2 sch rest w tail sl.
       lower d = ws1 @ core @ ws2
       \<and> (\<forall>c\<in>set ws1. isspace c) \<and> (\<forall>c\<in>set ws2. isspace c)
       \<and> (core \<noteq> [] \<longrightarrow> \<not> isspace (hd core) \<and> \<not> isspace (last core))
       \<and> core = sch @ rest
       \<and> sch \<in> {[], ''http://'', ''https://''}
       \<and> (sch = [] \<longrightarrow> \<not> startswith core ''http://'' \<and> \<not> startswith core ''https://'')
       \<and> rest = w @ tail
       \<and> w \<in> {[], ''www.''}
       \<and> (w = [] \<longrightarrow> \<not> startswith rest ''www.'')
       \<and> tail = clean_domain d @ sl
       \<and> set sl \<subseteq> {CHR ''/''}
       \<and> (clean_domain d \<noteq> [] \<longrightarrow> last (clean_domain d) \<noteq> CHR ''/''))
   \<and> lower (clean_domain d) = clean_domain d
   \<and> (clean_domain (clean_domain d) = clean_domain d \<longleftrightarrow>
        strip (clean_domain d) = clean_domain d
        \<and> \<not> startswith (clean_domain d) ''http://''
        \<and> \<not> startswith (clean_domain d) ''https://''
        \<and> \<not> startswith (clean_domain d) ''www.'')"
proof -
  let ?core = "strip (lower d)"
  let ?rest = "sub_scheme ?core"
  let ?tail = "sub_www ?rest"
  have c: "clean_domain d = rstrip_slash ?tail" by (simp add: clean_domain_def)
  from strip_parts [of "lower d"] obtain ws1 ws2 where p1:
    "lower d = ws1 @ ?core @ ws2" "\<forall>c\<in>set ws1. isspace c" "\<forall>c\<in>set ws2. isspace c"
    "?core \<noteq> [] \<longrightarrow> \<not> isspace (hd ?core) \<and> \<not> isspace (last ?core)" by blast
  from sub_scheme_parts [of ?core] obtain sch where p2:
    "?core = sch @ ?rest" "sch \<in> {[], ''http://'', ''https://''}"
    "sch = [] \<longrightarrow> \<not> startswith ?core ''http://'' \<and> \<not> startswith ?core ''https://''"
    by blast
  from sub_www_parts [of ?rest] obtain w where p3:
    "?rest = w @ ?tail" "w \<in> {[], ''www.''}" "w = [] \<longrightarrow> \<not> startswith ?rest ''www.''"
    by blast
  from rstrip_slash_parts [of ?tail] obtain sl where p4:
    "?tail = clean_domain d @ sl" "set sl \<subseteq> {CHR ''/''}"
    "clean_domain d \<noteq> [] \<longrightarrow> last (clean_domain d) \<noteq> CHR ''/''"
    unfolding c by blast
  have parts: "\<exists>ws1 core ws2 sch rest w tail sl.
       lower d = ws1 @ core @ ws2
       \<and> (\<forall>c\<in>set ws1. isspace c) \<and> (\<forall>c\<in>set ws2. isspace c)
       \<and> (core \<noteq> [] \<longrightarrow> \<not> isspace (hd core) \<and> \<not> isspace (last core))
       \<and> core = sch @ rest
       \<and> sch \<in> {[], ''http://'', ''https://''}
       \<and> (sch = [] \<longrightarrow> \<not> startswith core ''http://'' \<and> \<not> startswith core ''https://'')
       \<and> rest = w @ tail
       \<and> w \<in> {[], ''www.''}
       \<and> (w = [] \<longrightarrow> \<not> startswith rest ''www.'')
       \<and> tail = clean_domain d @ sl
       \<and> set sl \<subseteq> {CHR ''/''}
       \<and> (clean_domain d \<noteq> [] \<longrightarrow> last (clean_domain d) \<noteq> CHR ''/'')"
    apply (rule exI [of _ ws1])
    apply (rule exI [of _ ?core])
    apply (rule exI [of _ ws2])
    apply (rule exI [of _ sch])
    apply (rule exI [of _ ?rest])
    apply (rule exI [of _ w])
    apply (rule exI [of _ ?tail])
    apply (rule exI [of _ sl])
    using p1 p2 p3 p4 apply (intro conjI)
                apply assumption+
    done
  have low: "lower (clean_domain d) = clean_domain d"
    using set_clean_domain [of d] by (rule lower_fixed_subset)
  have rs: "rstrip_slash (clean_domain d) = clean_domain d"
    by (simp add: clean_domain_def rstrip_slash_idem)
  have iff: "clean_domain (clean_domain d) = clean_domain d \<longleftrightarrow>
        strip (clean_domain d) = clean_domain d
        \<and> \<not> startswith (clean_domain d) ''http://''
        \<and> \<not> startswith (clean_domain d) ''https://''
        \<and> \<not> startswith (clean_domain d) ''www.''"
    using low rs clean_domain_fixed_iff [of "clean_domain d"] by blast
  from parts low iff show ?thesis by (intro conjI)
qed

theorem clean_domain_idempotent_iff_witness:
  "clean_domain ''  HTTPS://WWW.Example.com// '' = ''example.com''
   \<and> lower ''  HTTPS://WWW.Example.com// ''
        = ''  '' @ (''https://'' @ (''www.'' @ (''example.com'' @ ''//''))) @ '' ''
   \<and> strip ''example.com'' = ''example.com''
   \<and> \<not> startswith ''example.com'' ''www.''
   \<and> clean_domain (clean_domain ''  HTTPS://WWW.Example.com// '')
       = clean_domain ''  HTTPS://WWW.Example.com// ''"
proof -
  have v: "clean_domain ''  HTTPS://WWW.Example.com// '' = ''example.com''"
    by code_simp
  have l: "lower ''  HTTPS://WWW.Example.com// ''
        = ''  '' @ (''https://'' @ (''www.'' @ (''example.com'' @ ''//''))) @ '' ''"
    by code_simp
  have h: "strip ''example.com'' = ''example.com''
           \<and> \<not> startswith ''example.com'' ''http://''
           \<and> \<not> startswith ''example.com'' ''https://''
           \<and> \<not> startswith ''example.com'' ''www.''"
    by code_simp
  from clean_domain_idempotent_iff [of "''  HTTPS://WWW.Example.com// ''"] h
  have "clean_domain (clean_domain ''  HTTPS://WWW.Example.com// '')
          = clean_domain ''  HTTPS://WWW.Example.com// ''"
    unfolding v by blast
  with v l h show ?thesis by blast
qed

subsection \<open>Sentiment\<close>

lemma startswith_prefix: "startswith s p \<longleftrightarrow> prefix p s"
proof
  assume "startswith s p"
  then have "s = p @ drop (length p) s"
    unfolding startswith_def by (metis append_take_drop_id)
  then show "prefix p s" unfolding prefix_def by blast
next
  assume "prefix p s"
  then show "startswith s p" by (auto simp: prefix_def startswith_def)
qed

lemma str_find_ge: "- 1 \<le> str_find s sub"
  by (induction s) (auto simp: Let_def)

lemma contains_Nil: "contains [] sub \<longleftrightarrow> sub = []"
  by (simp add: contains_def)

lemma contains_Cons:
  "contains (c # cs) sub \<longleftrightarrow> startswith (c # cs) sub \<or> contains cs sub"
  using str_find_ge [of cs sub] by (auto simp: contains_def Let_def)

lemma contains_sublist: "contains s sub \<longleftrightarrow> sublist sub s"
proof (induction s)
  case Nil
  show ?case by (simp add: contains_Nil)
next
  case (Cons c cs)
  then show ?case
    by (simp only: contains_Cons sublist_Cons_right startswith_prefix)
qed









subsection \<open>Rank\<close>




lemma rank_lines_None:
  "rank_lines ls brand k = Inr None \<longleftrightarrow> (\<forall>l\<in>set ls. \<not> contains (lower l) (lower brand))"
  by (induction ls arbitrary: k) (auto split: option.splits sum.splits)







subsection \<open>GEO probes and summary\<close>

lemma lower_char_newline: "lower_char c = CHR 0x0A \<longleftrightarrow> c = CHR 0x0A"
proof
  assume "c = CHR 0x0A"
  then show "lower_char c = CHR 0x0A" by (simp add: lower_char_def)
next
  assume a: "lower_char c = CHR 0x0A"
  show "c = CHR 0x0A"
  proof (rule ccontr)
    assume n: "c \<noteq> CHR 0x0A"
    have b: "(of_char c :: nat) < 256" by simp
    from a n have "char_of (of_char c + 32 :: nat) = CHR 0x0A"
      and r: "(65 \<le> (of_char c :: nat) \<and> (of_char c :: nat) \<le> 90)
              \<or> (192 \<le> (of_char c :: nat) \<and> (of_char c :: nat) \<le> 222)"
      by (auto simp: lower_char_def Let_def split: if_splits)
    then have "of_char (char_of (of_char c + 32 :: nat)) = (10 :: nat)" by simp
    then have "(of_char c + 32 :: nat) mod 256 = 10" by (simp only: of_char_of)
    with r show False by auto
  qed
qed

lemma split_lines_not_Nil: "split_lines t \<noteq> []"
  by (induction t) (auto split: list.splits)

lemma split_lines_lower: "split_lines (lower t) = map lower (split_lines t)"
proof (induction t)
  case Nil
  show ?case by (simp add: lower_def)
next
  case (Cons c cs)
  then have ih: "split_lines (map lower_char cs) = map (map lower_char) (split_lines cs)"
    by (simp add: lower_def[abs_def])
  show ?case
  proof (cases "c = CHR 0x0A")
    case True
    then have "lower_char c = CHR 0x0A" by (simp add: lower_char_newline)
    with True ih show ?thesis by (simp add: lower_def[abs_def])
  next
    case False
    then have "lower_char c \<noteq> CHR 0x0A" by (simp add: lower_char_newline)
    with False ih show ?thesis
      using split_lines_not_Nil [of cs]
      by (cases "split_lines cs") (simp_all add: lower_def[abs_def])
  qed
qed

lemma hd_split_lines: "hd (split_lines t) = takeWhile (\<lambda>c. c \<noteq> CHR 0x0A) t"
  by (induction t) (auto split: list.splits simp: split_lines_not_Nil)

lemma prefix_first_line:
  assumes "prefix b t" "CHR 0x0A \<notin> set b"
  shows "prefix b (hd (split_lines t))"
proof -
  from assms(1) obtain zs where t: "t = b @ zs" by (auto simp: prefix_def)
  have "takeWhile (\<lambda>c. c \<noteq> CHR 0x0A) (b @ zs) = b @ takeWhile (\<lambda>c. c \<noteq> CHR 0x0A) zs"
    using assms(2) by (intro takeWhile_append2) auto
  then show ?thesis by (simp add: hd_split_lines t)
qed

lemma sublist_in_some_line:
  assumes "sublist b t" "CHR 0x0A \<notin> set b"
  shows "\<exists>l\<in>set (split_lines t). sublist b l"
  using assms(1)
proof (induction t)
  case Nil
  then show ?case by simp
next
  case (Cons c cs)
  from Cons.prems have "prefix b (c # cs) \<or> sublist b cs"
    by (simp add: sublist_Cons_right)
  then show ?case
  proof
    assume "prefix b (c # cs)"
    then have "prefix b (hd (split_lines (c # cs)))"
      using assms(2) by (rule prefix_first_line)
    then have "sublist b (hd (split_lines (c # cs)))" by (rule prefix_imp_sublist)
    moreover have "hd (split_lines (c # cs)) \<in> set (split_lines (c # cs))"
      using split_lines_not_Nil by (intro hd_in_set)
    ultimately show ?thesis by blast
  next
    assume "sublist b cs"
    from Cons.IH [OF this] obtain l where l: "l \<in> set (split_lines cs)" "sublist b l"
      by blast
    show ?thesis
    proof (cases "c = CHR 0x0A")
      case True
      with l show ?thesis by auto
    next
      case False
      obtain l0 ls where s: "split_lines cs = l0 # ls"
        using split_lines_not_Nil [of cs] by (cases "split_lines cs") auto
      with False have e: "split_lines (c # cs) = (c # l0) # ls" by simp
      from l(1) s have "l = l0 \<or> l \<in> set ls" by auto
      then show ?thesis
      proof
        assume "l = l0"
        with l(2) have "sublist b (c # l0)" by (simp add: sublist_Cons_right)
        with e show ?thesis by simp
      next
        assume "l \<in> set ls"
        with l(2) e show ?thesis by auto
      qed
    qed
  qed
qed

lemma set_lower_newline: "CHR 0x0A \<in> set (lower d) \<longleftrightarrow> CHR 0x0A \<in> set d"
proof
  assume "CHR 0x0A \<in> set (lower d)"
  then obtain x where x: "x \<in> set d" "lower_char x = CHR 0x0A"
    by (auto simp: lower_def)
  from x(2) have "x = CHR 0x0A" by (simp only: lower_char_newline)
  with x(1) show "CHR 0x0A \<in> set d" by simp
next
  assume a: "CHR 0x0A \<in> set d"
  have "lower_char (CHR 0x0A) = CHR 0x0A" by (simp only: lower_char_newline)
  with a show "CHR 0x0A \<in> set (lower d)"
    unfolding lower_def set_map by (metis imageI)
qed

lemma extract_rank_present:
  assumes "contains (lower text) (lower domain)" "CHR 0x0A \<notin> set domain"
  shows "extract_rank text domain \<noteq> Inr None"
proof -
  from assms(1) have "sublist (lower domain) (lower text)" by (simp add: contains_sublist)
  moreover from assms(2) have "CHR 0x0A \<notin> set (lower domain)"
    by (simp add: set_lower_newline)
  ultimately obtain l where "l \<in> set (split_lines (lower text))" "sublist (lower domain) l"
    using sublist_in_some_line by blast
  then obtain l' where "l' \<in> set (split_lines text)" "contains (lower l') (lower domain)"
    by (auto simp: split_lines_lower contains_sublist)
  then show ?thesis
    by (auto simp: extract_rank_def rank_lines_None)
qed

lemma extract_sentiment_range:
  "extract_sentiment low lit text brand \<in> {''positive'', ''negative'', ''neutral''}"
  by (simp add: extract_sentiment_def Let_def classify_def)

lemma brand_mention_ok:
  assumes "brand_mention pf q d t = Inr m"
  shows "sentiment_ok m"
  using assms extract_sentiment_range [of lower "\<lambda>w. w" t d]
  by (auto simp: sentiment_ok_def brand_mention_def Let_def split: sum.splits if_splits)

lemma brand_mention_fields:
  assumes "brand_mention pf q d t = Inr m" "m_mentioned m"
  shows "contains (lower t) (lower d) \<and> m_context m \<noteq> None \<and> m_sentiment m \<noteq> None
         \<and> extract_rank t d = Inr (m_rank m)"
  using assms
  by (auto simp: brand_mention_def Let_def split: sum.splits if_splits)

lemma probe_all_mentions:
  assumes "probe_all d g c i qs = Some ms" "m \<in> set ms"
  shows "\<exists>pf q t. brand_mention pf q d t = Inr m"
  using assms
proof (induction qs arbitrary: i ms)
  case Nil
  then show ?case by simp
next
  case (Cons q qs)
  from Cons.prems(1) obtain gt ct gm cm ms' where
    p: "probe_all d g c (i + 1) qs = Some ms'"
    and gm: "brand_mention ''gemini'' q d gt = Inr gm"
    and cm: "brand_mention ''chatgpt'' q d ct = Inr cm"
    and ms: "ms = gm # cm # ms'"
    by (auto split: option.splits sum.splits)
  from Cons.prems(2) ms gm cm consider "brand_mention ''gemini'' q d gt = Inr m"
    | "brand_mention ''chatgpt'' q d ct = Inr m" | "m \<in> set ms'" by auto
  then show ?case
  proof cases
    case 1 then show ?thesis by blast
  next
    case 2 then show ?thesis by blast
  next
    case 3 with Cons.IH [OF p] show ?thesis by blast
  qed
qed

lemma tally_bump:
  assumes "s \<in> {''positive'', ''negative'', ''neutral''}"
  shows "tally (d(s \<mapsto> get0 d s + 1)) = tally d + 1"
  using assms by (auto simp: tally_def get0_def)

lemma count_sentiments_tally:
  assumes "\<forall>m\<in>set ms. sentiment_ok m"
  shows "tally (count_sentiments ms d) = tally d + length (filter m_mentioned ms)"
  using assms
proof (induction ms arbitrary: d)
  case Nil
  show ?case by simp
next
  case (Cons m ms)
  then have ok: "sentiment_ok m" and rest: "\<forall>m\<in>set ms. sentiment_ok m" by simp_all
  show ?case
  proof (cases "m_sentiment m")
    case None
    with ok have "\<not> m_mentioned m" by (simp add: sentiment_ok_def)
    with None Cons.IH [OF rest, of d] show ?thesis by simp
  next
    case (Some s)
    with ok have mm: "m_mentioned m" and s: "s \<in> {''positive'', ''negative'', ''neutral''}"
      by (simp_all add: sentiment_ok_def)
    from s have ne: "s \<noteq> []" by auto
    from Some ne have step:
      "count_sentiments (m # ms) d = count_sentiments ms (d(s \<mapsto> get0 d s + 1))"
      by simp
    have ih: "tally (count_sentiments ms (d(s \<mapsto> get0 d s + 1)))
                = tally (d(s \<mapsto> get0 d s + 1)) + length (filter m_mentioned ms)"
      by (rule Cons.IH [OF rest])
    have tb: "tally (d(s \<mapsto> get0 d s + 1)) = tally d + 1"
      by (rule tally_bump [OF s])
    have f: "length (filter m_mentioned (m # ms)) = length (filter m_mentioned ms) + 1"
      using mm by simp
    show ?thesis unfolding step ih tb f by simp
  qed
qed

lemma tally_initial:
  "tally [''positive'' \<mapsto> 0, ''negative'' \<mapsto> 0, ''neutral'' \<mapsto> 0] = 0"
  by (simp add: tally_def get0_def)

text \<open>
  C10 as stated fails: the normalized domain may hold a newline, since cleaning strips
  white space only at the ends. Such a domain can occur in the answer text without
  occurring in any single line, and the probe is then mentioned with no rank.
\<close>

theorem analyze_geo_mentioned_without_rank:
  "m_mentioned (mentions_of (analyze_geo two_line_request two_line_backend two_line_backend) ! 0)
   \<and> m_rank (mentions_of (analyze_geo two_line_request two_line_backend two_line_backend) ! 0)
       = None"
  by code_simp

text \<open>
  C10, amended. In every result that the GEO analyze operation returns, each probe with
  mentioned = true has its context and its sentiment present, and has its rank present
  whenever the normalized domain contains no newline; the positive, negative and
  neutral counts of the sentiment breakdown add up to mentions_found.
\<close>

theorem analyze_geo_mentioned_fields:
  assumes "analyze_geo request gemini chatgpt = Inr resp"
  shows "(\<forall>m\<in>set (r_mentions resp).
            m_mentioned m \<longrightarrow>
              m_context m \<noteq> None \<and> m_sentiment m \<noteq> None
              \<and> (CHR 0x0A \<notin> set (r_domain resp) \<longrightarrow> m_rank m \<noteq> None))
         \<and> get0 (s_sentiment_breakdown (r_summary resp)) ''positive''
           + get0 (s_sentiment_breakdown (r_summary resp)) ''negative''
           + get0 (s_sentiment_breakdown (r_summary resp)) ''neutral''
           = s_mentions_found (r_summary resp)"
proof -
  let ?d = "clean_domain (req_domain request)"
  from assms obtain ms where
    p: "probe_all ?d gemini chatgpt 0 (build_queries ?d (req_keywords request)) = Some ms"
    and resp: "resp = \<lparr> r_domain = ?d, r_keywords = req_keywords request,
                        r_mentions = ms, r_summary = summarize ms \<rparr>"
    by (auto simp: analyze_geo_def Let_def split: option.splits)
  have each: "m_context m \<noteq> None \<and> m_sentiment m \<noteq> None
              \<and> (CHR 0x0A \<notin> set ?d \<longrightarrow> m_rank m \<noteq> None)"
    if "m \<in> set ms" "m_mentioned m" for m
  proof -
    from probe_all_mentions [OF p that(1)] obtain pf q t where
      m: "brand_mention pf q ?d t = Inr m" by blast
    from brand_mention_fields [OF m that(2)] have hit: "contains (lower t) (lower ?d)"
      and c: "m_context m \<noteq> None" and sn: "m_sentiment m \<noteq> None"
      and r: "extract_rank t ?d = Inr (m_rank m)" by simp_all
    have "CHR 0x0A \<notin> set ?d \<longrightarrow> extract_rank t ?d \<noteq> Inr None"
      using extract_rank_present [OF hit] by blast
    with r have "CHR 0x0A \<notin> set ?d \<longrightarrow> m_rank m \<noteq> None" by simp
    with c sn show ?thesis by simp
  qed
  have ok: "\<forall>m\<in>set ms. sentiment_ok m"
  proof
    fix m assume "m \<in> set ms"
    from probe_all_mentions [OF p this] obtain pf q t where
      "brand_mention pf q ?d t = Inr m" by blast
    then show "sentiment_ok m" by (rule brand_mention_ok)
  qed
  have "tally (s_sentiment_breakdown (summarize ms)) = s_mentions_found (summarize ms)"
    using count_sentiments_tally [OF ok] tally_initial
    by (simp add: summarize_def Let_def)
  then have sum: "get0 (s_sentiment_breakdown (summarize ms)) ''positive''
           + get0 (s_sentiment_breakdown (summarize ms)) ''negative''
           + get0 (s_sentiment_breakdown (summarize ms)) ''neutral''
           = s_mentions_found (summarize ms)"
    by (simp only: tally_def)
  from each sum show ?thesis unfolding resp by simp
qed

theorem analyze_geo_mentioned_fields_witness:
  "\<exists>resp. analyze_geo plain_request list_backend silent_backend = Inr resp
     \<and> length (filter m_mentioned (r_mentions resp)) = 2
     \<and> (\<forall>m\<in>set (r_mentions resp).
            m_mentioned m \<longrightarrow>
              m_context m \<noteq> None \<and> m_sentiment m \<noteq> None
              \<and> (CHR 0x0A \<notin> set (r_domain resp) \<longrightarrow> m_rank m \<noteq> None))
     \<and> get0 (s_sentiment_breakdown (r_summary resp)) ''positive''
       + get0 (s_sentiment_breakdown (r_summary resp)) ''negative''
       + get0 (s_sentiment_breakdown (r_summary resp)) ''neutral''
       = s_mentions_found (r_summary resp)"
proof -
  have e: "\<not> isl (analyze_geo plain_request list_backend silent_backend)"
    by code_simp
  then obtain resp where
    r: "analyze_geo plain_request list_backend silent_backend = Inr resp"
    by (cases "analyze_geo plain_request list_backend silent_backend") auto
  have "length (filter m_mentioned
          (mentions_of (analyze_geo plain_request list_backend silent_backend))) = 2"
    by code_simp
  then have n: "length (filter m_mentioned (r_mentions resp)) = 2"
    by (simp add: r mentions_of_def)
  from r n analyze_geo_mentioned_fields [OF r] show ?thesis by blast
qed

subsection \<open>Opportunities\<close>

lemma is_opportunity_iff:
  "is_opportunity (audits i) \<longleftrightarrow> (\<exists>a s. audits i = Some a \<and> a_score a = Some s \<and> s < 1)"
  by (cases "audits i") (auto simp: is_opportunity_def split: option.splits)

lemma set_collect_opportunities:
  "set (collect_opportunities audits) =
     {make_opportunity i a | i a.
        i \<in> set opportunity_audits \<and> audits i = Some a
        \<and> (\<exists>s. a_score a = Some s \<and> s < 1)}"
proof -
  have "set (collect_opportunities audits) =
          {make_opportunity i (the (audits i)) | i.
             i \<in> set opportunity_audits \<and> is_opportunity (audits i)}"
    by (auto simp: collect_opportunities_def split: if_splits)
  also have "\<dots> = {make_opportunity i a | i a.
        i \<in> set opportunity_audits \<and> audits i = Some a
        \<and> (\<exists>s. a_score a = Some s \<and> s < 1)}"
    unfolding is_opportunity_iff by force
  finally show ?thesis .
qed

lemma set_extract_opportunities:
  "set (extract_opportunities audits) =
     {make_opportunity i a | i a.
        i \<in> set opportunity_audits \<and> audits i = Some a
        \<and> (\<exists>s. a_score a = Some s \<and> s < 1)}"
  by (simp add: extract_opportunities_def set_collect_opportunities)

lemma make_opportunity_priority:
  assumes "a_score a = Some s"
  shows "o_priority (make_opportunity i a) = (if s < 1 / 2 then ''high'' else ''medium'')"
  using assms by (simp add: make_opportunity_def get_or_def)

lemma extract_opportunities_sorted_by_key:
  "sorted (map score_or_1 (extract_opportunities audits))"
  by (simp add: extract_opportunities_def)

lemma sort_key_example:
  "map o_score (sort_key score_or_1 (map scored [Some 0.8, Some 0.3, None, Some 0.5]))
     = [Some 0.3, Some 0.5, Some 0.8, None]"
  by (simp add: scored_def score_or_1_def)

text \<open>
  C3. Opportunity extraction includes an allow-listed check exactly when its score is
  present and below 1, gives priority \<open>high\<close> exactly to scores below 0.5, and is meant
  to return the list in ascending order of score. The lemmas above confirm the
  inclusion rule, the priority rule and the example with an absent score. The order
  fails for a score of 0: the sort key \<open>x.score or 1\<close> reads 0 as 1, so the worst
  check, of priority \<open>high\<close>, is placed after a check of score 0.5 and priority
  \<open>medium\<close>.
\<close>

theorem extract_opportunities_zero_score_last:
  "map o_score (extract_opportunities zero_score_audits) = [Some (1 / 2), Some 0]
   \<and> map o_priority (extract_opportunities zero_score_audits) = [''medium'', ''high'']"
  by (simp add: extract_opportunities_def collect_opportunities_def opportunity_audits_def
      zero_score_audits_def is_opportunity_def make_opportunity_def get_or_def score_or_1_def)

subsection \<open>Rounding to doubles\<close>


lemma round_half_even_int: "round_half_even (real_of_int n) = n"
  by (simp add: round_half_even_def)


lemma round_half_even_le:
  assumes "y \<le> real_of_int n"
  shows "round_half_even y \<le> n"
proof (cases "real_of_int \<lfloor>y\<rfloor> = y")
  case True
  then have "y - real_of_int \<lfloor>y\<rfloor> = 0" by linarith
  then have "round_half_even y = \<lfloor>y\<rfloor>"
    unfolding round_half_even_def Let_def by simp
  moreover from assms True have "real_of_int \<lfloor>y\<rfloor> \<le> real_of_int n" by linarith
  then have "\<lfloor>y\<rfloor> \<le> n" by (simp only: of_int_le_iff)
  ultimately show ?thesis by simp
next
  case False
  have "real_of_int \<lfloor>y\<rfloor> \<le> y" by simp
  with False have "real_of_int \<lfloor>y\<rfloor> < y" by linarith
  with assms have "real_of_int \<lfloor>y\<rfloor> < real_of_int n" by linarith
  then have "\<lfloor>y\<rfloor> + 1 \<le> n" by simp
  then show ?thesis by (simp add: round_half_even_def Let_def)
qed

lemma exponent_bounds:
  assumes "0 < x"
  shows "2 powi exponent x \<le> x" and "x < 2 powi (exponent x + 1)"
proof -
  have "2 powi exponent x \<le> x \<and> x < 2 powi (exponent x + 1)"
  proof (cases "1 \<le> x")
    case True
    let ?n = "\<lfloor>x\<rfloor>"
    from True have n: "0 < ?n" by simp
    from bitlen_bounds [OF n] have b1: "2 ^ nat (bitlen ?n - 1) \<le> ?n"
      and b2: "?n < 2 ^ nat (bitlen ?n)" by simp_all
    from n have k: "1 \<le> bitlen ?n" by (simp add: bitlen_alt_def)
    have e: "exponent x = bitlen ?n - 1" using True by (simp add: exponent_def)
    have "real_of_int (2 ^ nat (bitlen ?n - 1)) \<le> real_of_int ?n"
      using b1 by (simp only: of_int_le_iff)
    then have "(2::real) ^ nat (bitlen ?n - 1) \<le> real_of_int ?n" by simp
    moreover have "real_of_int ?n \<le> x" by simp
    ultimately have lo: "(2::real) ^ nat (bitlen ?n - 1) \<le> x" by (rule order_trans)
    from b2 have "?n + 1 \<le> 2 ^ nat (bitlen ?n)" by simp
    then have "real_of_int (?n + 1) \<le> real_of_int (2 ^ nat (bitlen ?n))"
      by (simp only: of_int_le_iff)
    then have "real_of_int ?n + 1 \<le> (2::real) ^ nat (bitlen ?n)" by simp
    moreover have "x < real_of_int ?n + 1" by linarith
    ultimately have hi: "x < (2::real) ^ nat (bitlen ?n)" by (rule less_le_trans [rotated])
    from k have p1: "(2::real) powi (bitlen ?n - 1) = 2 ^ nat (bitlen ?n - 1)"
      by (simp add: power_int_def)
    from k have p2: "(2::real) powi (bitlen ?n - 1 + 1) = 2 ^ nat (bitlen ?n)"
      by (simp add: power_int_def)
    from lo hi show ?thesis unfolding e p1 p2 by simp
  next
    case False
    let ?m = "\<lceil>1 / x\<rceil> - 1"
    from False assms have y: "1 < 1 / x" by simp
    then have m: "0 < ?m" by linarith
    have m_lt: "real_of_int ?m < 1 / x" by linarith
    have m_ge: "1 / x \<le> real_of_int ?m + 1" by linarith
    from bitlen_bounds [OF m] have b1: "2 ^ nat (bitlen ?m - 1) \<le> ?m"
      and b2: "?m < 2 ^ nat (bitlen ?m)" by simp_all
    from m have k: "1 \<le> bitlen ?m" by (simp add: bitlen_alt_def)
    have e: "exponent x = - bitlen ?m" using False by (simp add: exponent_def)
    from b2 have "?m + 1 \<le> 2 ^ nat (bitlen ?m)" by simp
    then have "real_of_int (?m + 1) \<le> real_of_int (2 ^ nat (bitlen ?m))"
      by (simp only: of_int_le_iff)
    then have "real_of_int ?m + 1 \<le> (2::real) ^ nat (bitlen ?m)" by simp
    with m_ge have "1 / x \<le> (2::real) ^ nat (bitlen ?m)" by (rule order_trans)
    then have "1 / (2::real) ^ nat (bitlen ?m) \<le> x"
      using assms by (simp add: field_simps)
    moreover from k have "(2::real) powi (- bitlen ?m) = 1 / 2 ^ nat (bitlen ?m)"
      by (simp add: power_int_def field_simps)
    ultimately have lo: "2 powi (- bitlen ?m) \<le> x" by simp
    have "real_of_int (2 ^ nat (bitlen ?m - 1)) \<le> real_of_int ?m"
      using b1 by (simp only: of_int_le_iff)
    then have "(2::real) ^ nat (bitlen ?m - 1) \<le> real_of_int ?m" by simp
    then have "(2::real) ^ nat (bitlen ?m - 1) < 1 / x" using m_lt by (rule le_less_trans)
    then have "x < 1 / (2::real) ^ nat (bitlen ?m - 1)"
      using assms by (simp add: field_simps)
    moreover have "(2::real) powi (- bitlen ?m + 1) = 1 / 2 ^ nat (bitlen ?m - 1)"
    proof (cases "bitlen ?m = 1")
      case True
      then show ?thesis by simp
    next
      case False
      with k have "- bitlen ?m + 1 < 0" by simp
      moreover have "nat (- (- bitlen ?m + 1)) = nat (bitlen ?m - 1)" by simp
      ultimately show ?thesis by (simp add: power_int_def field_simps)
    qed
    ultimately have hi: "x < 2 powi (- bitlen ?m + 1)" by simp
    from lo hi show ?thesis unfolding e by simp
  qed
  then show "2 powi exponent x \<le> x" and "x < 2 powi (exponent x + 1)" by simp_all
qed



lemma exponent_less:
  assumes "0 < x" "x < 2 ^ n"
  shows "exponent x < int n"
proof (rule ccontr)
  assume "\<not> exponent x < int n"
  then have "int n \<le> exponent x" by simp
  then have "(2::real) powi int n \<le> 2 powi exponent x"
    by (intro power_int_increasing) simp_all
  also have "\<dots> \<le> x" by (rule exponent_bounds [OF assms(1)])
  finally have "(2::real) ^ n \<le> x" by simp
  with assms(2) show False by simp
qed


lemma to_double_le_int:
  assumes "0 < x" "x < 2 ^ 53" "x \<le> real_of_int n"
  shows "to_double x \<le> real_of_int n"
proof -
  define s where "s = 52 - exponent x"
  from exponent_less [OF assms(1,2)] have s0: "0 \<le> s" by (simp add: s_def)
  have P: "(2::real) powi s = 2 ^ nat s" using s0 by (simp add: power_int_def)
  have "x * 2 ^ nat s \<le> real_of_int n * 2 ^ nat s"
    using assms(3) by (simp add: mult_right_mono)
  then have "x * 2 ^ nat s \<le> real_of_int (n * 2 ^ nat s)" by simp
  then have "round_half_even (x * 2 ^ nat s) \<le> n * 2 ^ nat s"
    by (rule round_half_even_le)
  then have "real_of_int (round_half_even (x * 2 ^ nat s)) \<le> real_of_int (n * 2 ^ nat s)"
    by (simp only: of_int_le_iff)
  then have "real_of_int (round_half_even (x * 2 ^ nat s)) \<le> real_of_int n * 2 ^ nat s"
    by simp
  then have "real_of_int (round_half_even (x * 2 ^ nat s)) / 2 ^ nat s \<le> real_of_int n"
    by (simp add: pos_divide_le_eq)
  then show ?thesis
    using assms(1) by (simp add: to_double_def nearest_double_def Let_def s_def [symmetric] P)
qed

lemma to_double_half_int:
  assumes "0 < j" "real_of_int j / 2 < 2 ^ 52"
  shows "to_double (real_of_int j / 2) = real_of_int j / 2"
proof -
  define x where "x = real_of_int j / 2"
  have xpos: "0 < x" using assms(1) by (simp add: x_def)
  have xlt: "x < 2 ^ 52" using assms(2) by (simp add: x_def)
  define s where "s = 52 - exponent x"
  from exponent_less [OF xpos xlt] have s1: "1 \<le> s" by (simp add: s_def)
  have P: "(2::real) powi s = 2 ^ nat s" using s1 by (simp add: power_int_def)
  from s1 obtain k where k: "nat s = Suc k" by (cases "nat s") auto
  have "x * 2 ^ nat s = real_of_int (j * 2 ^ k)"
    by (simp add: x_def k)
  then have "round_half_even (x * 2 ^ nat s) = j * 2 ^ k"
    by (simp only: round_half_even_int)
  then have "real_of_int (round_half_even (x * 2 ^ nat s)) / 2 ^ nat s = x"
    by (simp add: x_def k)
  then have "to_double x = x"
    using xpos by (simp add: to_double_def nearest_double_def Let_def s_def [symmetric] P)
  then show ?thesis by (simp only: x_def)
qed

lemma to_double_int:
  assumes "0 < n" "real_of_int n < 2 ^ 52"
  shows "to_double (real_of_int n) = real_of_int n"
proof -
  have "to_double (real_of_int (2 * n) / 2) = real_of_int (2 * n) / 2"
    using assms by (intro to_double_half_int) simp_all
  then show ?thesis by simp
qed

lemma bitlen_numeral_step: "bitlen (numeral n) = bitlen (numeral n div 2) + 1"
  by (subst compute_bitlen) simp

lemma bitlen_one: "bitlen 1 = 1"
  by (subst compute_bitlen) simp

lemmas to_double_eval =
  to_double_def nearest_double_def exponent_def round_half_even_def Let_def
  bitlen_numeral_step bitlen_one

lemmas float_eval = fmul_def fdiv_def fadd_def float_lit_def round1_def to_double_eval

lemma float_lit_3_2: "float_lit 1.5 = 3 / 2"
  by (simp add: float_lit_def to_double_eval)


















subsection \<open>Traffic estimation\<close>











lemma fmul_3_2:
  assumes "0 < b" "b \<le> 1000000"
  shows "fmul (real_of_int b) (float_lit 1.5) = real_of_int (3 * b) / 2"
proof -
  have "real_of_int (3 * b) / 2 \<le> 1500000" using assms(2) by simp
  also have "\<dots> < (2::real) ^ 52" by simp
  finally have lt: "real_of_int (3 * b) / 2 < 2 ^ 52" .
  have "to_double (real_of_int (3 * b) / 2) = real_of_int (3 * b) / 2"
    using assms(1) lt by (intro to_double_half_int) simp_all
  moreover have "real_of_int b * (3 / 2) = real_of_int (3 * b) / 2" by simp
  ultimately show ?thesis by (simp only: fmul_def float_lit_3_2)
qed

text \<open>The figure before validation.\<close>

lemma estimate_traffic_metrics_cases:
  assumes "10000 \<le> sampled" "sampled \<le> 500000"
  shows "\<exists>bt. real_of_int 10000 \<le> bt \<and> bt \<le> 1500000
           \<and> bt = real_of_int sampled
                  * (if sublist ''.gov'' domain \<or> sublist ''.edu'' domain then 2 else 1)
                  * (if length domain < 10 then 3 / 2 else 1)
           \<and> estimate_traffic_metrics sampled domain =
               (case int_field bt of
                  None \<Rightarrow> None
                | Some visits \<Rightarrow>
                    Some \<lparr> monthly_visits = visits,
                           monthly_visits_min = py_int (fmul bt (float_lit 0.7)),
                           monthly_visits_max = py_int (fmul bt (float_lit 1.3)) \<rparr>)"
proof -
  define b where
    "b = (if contains domain ''.gov'' \<or> contains domain ''.edu'' then sampled * 2 else sampled)"
  define bt where
    "bt = (if length domain < 10 then fmul (real_of_int b) (float_lit 1.5) else real_of_int b)"
  have b1: "10000 \<le> b" and b2: "b \<le> 1000000" using assms by (auto simp: b_def)
  have bpos: "0 < b" using b1 by simp
  have bt_eq: "bt = real_of_int b * (if length domain < 10 then 3 / 2 else 1)"
    using fmul_3_2 [OF bpos b2] by (simp add: bt_def)
  have b_eq: "real_of_int b = real_of_int sampled
                * (if sublist ''.gov'' domain \<or> sublist ''.edu'' domain then 2 else 1)"
    by (simp add: b_def contains_sublist)
  have rb1: "10000 \<le> real_of_int b" using b1 by simp
  have rb2: "real_of_int b \<le> 1000000" using b2 by simp
  have lo: "real_of_int 10000 \<le> bt" using rb1 unfolding bt_eq by (simp split: if_splits)
  have hi: "bt \<le> 1500000" using rb2 unfolding bt_eq by (simp split: if_splits)
  have v: "bt = real_of_int sampled
                  * (if sublist ''.gov'' domain \<or> sublist ''.edu'' domain then 2 else 1)
                  * (if length domain < 10 then 3 / 2 else 1)"
    unfolding bt_eq b_eq ..
  have e: "estimate_traffic_metrics sampled domain =
               (case int_field bt of
                  None \<Rightarrow> None
                | Some visits \<Rightarrow>
                    Some \<lparr> monthly_visits = visits,
                           monthly_visits_min = py_int (fmul bt (float_lit 0.7)),
                           monthly_visits_max = py_int (fmul bt (float_lit 1.3)) \<rparr>)"
    by (simp only: estimate_traffic_metrics_def Let_def b_def bt_def)
  from lo hi v e show ?thesis by blast
qed




text \<open>
  Both cases of monthly_visits_min occur, and the estimator does not always return:
  the product with 1.5 of an odd figure has a fractional part, which the schema
  rejects.
\<close>

lemma estimate_traffic_metrics_one_less:
  "map_option monthly_visits_min (estimate_traffic_metrics 10250 ''example.com'') = Some 7174
   \<and> \<lfloor>(10250 :: real) * 7 / 10\<rfloor> = 7175"
proof -
  have c: "\<not> contains ''example.com'' ''.gov'' \<and> \<not> contains ''example.com'' ''.edu''"
    by code_simp
  have p: "py_int (fmul 10250 (float_lit 0.7)) = 7174"
    by (simp add: py_int_def float_eval)
  have "estimate_traffic_metrics 10250 ''example.com''
          = Some \<lparr> monthly_visits = 10250, monthly_visits_min = 7174,
                   monthly_visits_max = py_int (fmul 10250 (float_lit 1.3)) \<rparr>"
    using c p by (simp add: estimate_traffic_metrics_def Let_def int_field_def)
  then show ?thesis by simp
qed

lemma int_field_None_iff: "int_field x = None \<longleftrightarrow> x \<notin> \<int>"
proof -
  have "real_of_int \<lfloor>x\<rfloor> = x \<longleftrightarrow> x \<in> \<int>"
    by (metis Ints_of_int of_int_floor)
  then show ?thesis by (simp add: int_field_def)
qed

lemma estimate_traffic_metrics_raises:
  assumes "10000 \<le> sampled" "sampled \<le> 500000"
  shows "estimate_traffic_metrics sampled domain = None \<longleftrightarrow>
           length domain < 10 \<and> \<not> sublist ''.gov'' domain \<and> \<not> sublist ''.edu'' domain
           \<and> odd sampled"
proof -
  from estimate_traffic_metrics_cases [OF assms, of domain] obtain bt where
    bt: "bt = real_of_int sampled
                  * (if sublist ''.gov'' domain \<or> sublist ''.edu'' domain then 2 else 1)
                  * (if length domain < 10 then 3 / 2 else 1)"
    and e: "estimate_traffic_metrics sampled domain =
               (case int_field bt of
                  None \<Rightarrow> None
                | Some visits \<Rightarrow>
                    Some \<lparr> monthly_visits = visits,
                           monthly_visits_min = py_int (fmul bt (float_lit 0.7)),
                           monthly_visits_max = py_int (fmul bt (float_lit 1.3)) \<rparr>)"
    by blast
  have n: "estimate_traffic_metrics sampled domain = None \<longleftrightarrow> bt \<notin> \<int>"
    unfolding e using int_field_None_iff [of bt] by (cases "int_field bt") auto
  have half: "real_of_int sampled * (3 / 2) \<in> \<int> \<longleftrightarrow> even sampled"
  proof
    assume "even sampled"
    then obtain k where "sampled = 2 * k" by (auto elim: evenE)
    then have "real_of_int sampled * (3 / 2) = real_of_int (3 * k)" by simp
    then show "real_of_int sampled * (3 / 2) \<in> \<int>" by (simp only: Ints_of_int)
  next
    assume "real_of_int sampled * (3 / 2) \<in> \<int>"
    then obtain j where j: "real_of_int sampled * (3 / 2) = real_of_int j"
      by (auto elim: Ints_cases)
    then have "real_of_int (3 * sampled) = real_of_int (2 * j)" by simp
    then have "3 * sampled = 2 * j" by (simp only: of_int_eq_iff)
    then show "even sampled" by presburger
  qed
  have whole2: "real_of_int sampled * 2 \<in> \<int>"
    using Ints_of_int [of "2 * sampled"] by (simp add: mult.commute)
  have whole3: "real_of_int sampled * 2 * (3 / 2) \<in> \<int>"
    using Ints_of_int [of "3 * sampled"] by (simp add: mult.commute)
  have whole1: "real_of_int sampled \<in> \<int>" by simp
  show ?thesis
    unfolding n bt using half whole1 whole2 whole3 by (auto split: if_splits)
qed

lemma estimate_traffic_metrics_fraction:
  "estimate_traffic_metrics 10001 ''short.io'' = None"
proof -
  have c: "\<not> contains ''short.io'' ''.gov'' \<and> \<not> contains ''short.io'' ''.edu''"
    by code_simp
  then have "\<not> sublist ''.gov'' ''short.io'' \<and> \<not> sublist ''.edu'' ''short.io''"
    unfolding contains_sublist .
  moreover have "length ''short.io'' < 10" by simp
  moreover have "odd (10001 :: int)" by simp
  ultimately show ?thesis
    using estimate_traffic_metrics_raises [of 10001 "''short.io''"] by simp
qed

subsection \<open>SEO analyze without a credential\<close>

lemma analyze_seo_health_demo_ok:
  assumes "valid_demo_sample s" "q_strategy request = Some strategy"
  shows "\<exists>r. analyze_seo_health [] s live request = Inr r
           \<and> in_0_100 (performance_score r) \<and> in_0_100 (seo_score r)
           \<and> in_0_100 (accessibility_score r) \<and> in_0_100 (best_practices_score r)
           \<and> recommendations r \<noteq> []"
  using assms
  by (simp add: analyze_seo_health_def make_response_def get_demo_seo_data_def
      valid_demo_sample_def in_0_100_def)

lemma analyze_seo_health_skips_network:
  "analyze_seo_health [] s live request = analyze_seo_health [] s live' request"
  by (simp add: analyze_seo_health_def)

text \<open>
  C7. With no PageSpeed credential the analyze operation should never raise: it skips
  the network call and returns a synthetic result whose four scores lie within 0 to
  100 and whose recommendation list is not empty. The two lemmas above show this for
  every request that carries a strategy string. A request may carry no strategy
  (\<open>null\<close> is accepted for an \<open>Optional[str]\<close> field); the demo data then holds
  \<open>None\<close> for the field \<open>strategy\<close> that the response schema declares \<open>str\<close>, and
  building the response raises, outside the \<open>try\<close> of the operation, whatever the
  random draws are.
\<close>

theorem analyze_seo_health_null_strategy:
  "analyze_seo_health [] s live \<lparr> q_url = ''https://example.com/'', q_strategy = None \<rparr>
     = Inl ValidationError"
  by (simp add: analyze_seo_health_def make_response_def get_demo_seo_data_def)

subsection \<open>Report builder\<close>



lemma table_sizes_append: "table_sizes (xs @ ys) = table_sizes xs @ table_sizes ys"
  by (simp add: table_sizes_def map_filter_def)

































lemma create_pdf_report_null_score: "create_pdf_report null_score_request now = None"
  by (simp add: create_pdf_report_def key_metrics_def null_score_request_def stats_row_def
      has_key_def get_d_def status_of_def)




end
